theory Spec2Isabelle
  imports Complex_Main
begin

section \<open>Shading-language values and built-ins\<close>

text \<open>
  The shader is written in the Three.js shading language, whose nodes compile to GPU
  code over 32-bit floats. The embedding evaluates every node over the real numbers,
  and gives the two radius tests of the loop in single precision as well; infinities
  and NaN are outside the model. Where a built-in is undefined on the GPU (a zero
  denominator, a negative base of \<open>pow\<close>) the HOL function still returns some real
  number, so such points are handled by explicit side conditions in the theorems, or
  reported by the checked evaluation, and never relied upon.
\<close>

datatype vec2 = Vec2 (v2x: real) (v2y: real)

datatype vec3 = Vec3 (vx: real) (vy: real) (vz: real)

datatype vec4 = Vec4 (xyz: vec3) (vw: real)

definition add2 :: "vec2 \<Rightarrow> vec2 \<Rightarrow> vec2" where
  "add2 a b = Vec2 (v2x a + v2x b) (v2y a + v2y b)"

definition sub2 :: "vec2 \<Rightarrow> vec2 \<Rightarrow> vec2" where
  "sub2 a b = Vec2 (v2x a - v2x b) (v2y a - v2y b)"

definition smul2 :: "vec2 \<Rightarrow> real \<Rightarrow> vec2" where
  "smul2 a k = Vec2 (v2x a * k) (v2y a * k)"

definition sadd2 :: "vec2 \<Rightarrow> real \<Rightarrow> vec2" where
  "sadd2 a k = Vec2 (v2x a + k) (v2y a + k)"

definition dot2 :: "vec2 \<Rightarrow> vec2 \<Rightarrow> real" where
  "dot2 a b = v2x a * v2x b + v2y a * v2y b"

definition length2 :: "vec2 \<Rightarrow> real" where
  "length2 a = sqrt (v2x a * v2x a + v2y a * v2y a)"

definition add3 :: "vec3 \<Rightarrow> vec3 \<Rightarrow> vec3" where
  "add3 a b = Vec3 (vx a + vx b) (vy a + vy b) (vz a + vz b)"

definition sub3 :: "vec3 \<Rightarrow> vec3 \<Rightarrow> vec3" where
  "sub3 a b = Vec3 (vx a - vx b) (vy a - vy b) (vz a - vz b)"

definition smul3 :: "vec3 \<Rightarrow> real \<Rightarrow> vec3" where
  "smul3 a k = Vec3 (vx a * k) (vy a * k) (vz a * k)"

definition sdiv3 :: "vec3 \<Rightarrow> real \<Rightarrow> vec3" where
  "sdiv3 a k = Vec3 (vx a / k) (vy a / k) (vz a / k)"

definition negate3 :: "vec3 \<Rightarrow> vec3" where
  "negate3 a = Vec3 (- vx a) (- vy a) (- vz a)"

definition dot3 :: "vec3 \<Rightarrow> vec3 \<Rightarrow> real" where
  "dot3 a b = vx a * vx b + vy a * vy b + vz a * vz b"

definition cross3 :: "vec3 \<Rightarrow> vec3 \<Rightarrow> vec3" where
  "cross3 a b = Vec3 (vy a * vz b - vz a * vy b)
                     (vz a * vx b - vx a * vz b)
                     (vx a * vy b - vy a * vx b)"

definition length3 :: "vec3 \<Rightarrow> real" where
  "length3 a = sqrt (vx a * vx a + vy a * vy a + vz a * vz a)"

definition normalize3 :: "vec3 \<Rightarrow> vec3" where
  "normalize3 a = sdiv3 a (length3 a)"

definition floor3 :: "vec3 \<Rightarrow> vec3" where
  "floor3 p = Vec3 (of_int \<lfloor>vx p\<rfloor>) (of_int \<lfloor>vy p\<rfloor>) (of_int \<lfloor>vz p\<rfloor>)"

definition fract3 :: "vec3 \<Rightarrow> vec3" where
  "fract3 p = Vec3 (frac (vx p)) (frac (vy p)) (frac (vz p))"

definition floor2 :: "vec2 \<Rightarrow> vec2" where
  "floor2 p = Vec2 (of_int \<lfloor>v2x p\<rfloor>) (of_int \<lfloor>v2y p\<rfloor>)"

definition fract2 :: "vec2 \<Rightarrow> vec2" where
  "fract2 p = Vec2 (frac (v2x p)) (frac (v2y p))"

definition clamp :: "real \<Rightarrow> real \<Rightarrow> real \<Rightarrow> real" where
  "clamp x lo hi = min (max x lo) hi"

definition mix :: "real \<Rightarrow> real \<Rightarrow> real \<Rightarrow> real" where
  "mix a b t = a * (1 - t) + b * t"

definition mix3 :: "vec3 \<Rightarrow> vec3 \<Rightarrow> real \<Rightarrow> vec3" where
  "mix3 a b t = Vec3 (mix (vx a) (vx b) t) (mix (vy a) (vy b) t) (mix (vz a) (vz b) t)"

definition smoothstep :: "real \<Rightarrow> real \<Rightarrow> real \<Rightarrow> real" where
  "smoothstep e0 e1 x = (let t = clamp ((x - e0) / (e1 - e0)) 0 1 in t * t * (3 - 2 * t))"

definition step :: "real \<Rightarrow> real \<Rightarrow> real" where
  "step edge x = (if x < edge then 0 else 1)"

definition pow :: "real \<Rightarrow> real \<Rightarrow> real" where
  "pow x y = x powr y"

definition pow3 :: "vec3 \<Rightarrow> vec3 \<Rightarrow> vec3" where
  "pow3 a e = Vec3 (pow (vx a) (vx e)) (pow (vy a) (vy e)) (pow (vz a) (vz e))"

text \<open>The node method \<open>mod\<close> is the floored remainder \<open>x - y * floor (x / y)\<close>.\<close>

definition fmod :: "real \<Rightarrow> real \<Rightarrow> real" where
  "fmod x y = x - y * of_int \<lfloor>x / y\<rfloor>"

text \<open>Two-argument \<open>atan\<close>: the angle of the point \<open>(x, y)\<close>, given as \<open>atan y x\<close>.\<close>

definition atan2 :: "real \<Rightarrow> real \<Rightarrow> real" where
  "atan2 y x =
     (if 0 < x then arctan (y / x)
      else if x < 0 then (if 0 \<le> y then arctan (y / x) + pi else arctan (y / x) - pi)
      else if 0 < y then pi / 2
      else if y < 0 then - (pi / 2)
      else 0)"


section \<open>The uniforms read by the shader\<close>

text \<open>
  The shader reads its parameters as properties of the \<open>uniforms\<close> object. The record
  has one field for every property that some shader function reads; the flags
  \<open>starsEnabled\<close> and \<open>nebulaEnabled\<close> are floats compared with 0.5, as in the source.
\<close>

record uniforms =
  blackHoleMass :: real
  diskInnerRadius :: real
  diskOuterRadius :: real
  diskTemperature :: real
  temperatureFalloff :: real
  diskBrightness :: real
  diskRotationSpeed :: real
  dopplerStrength :: real
  turbulenceScale :: real
  turbulenceStretch :: real
  turbulenceSharpness :: real
  turbulenceCycleTime :: real
  turbulenceLacunarity :: real
  turbulencePersistence :: real
  diskEdgeSoftnessInner :: real
  diskEdgeSoftnessOuter :: real
  gravitationalLensing :: real
  stepSize :: real
  starsEnabled :: real
  starBackgroundColor :: vec3
  starDensity :: real
  starSize :: real
  starBrightness :: real
  nebulaEnabled :: real
  nebula1Scale :: real
  nebula1Density :: real
  nebula1Brightness :: real
  nebula1Color :: vec3
  nebula2Scale :: real
  nebula2Density :: real
  nebula2Brightness :: real
  nebula2Color :: vec3
  time :: real
  resolution :: vec2
  cameraPosition :: vec3
  cameraTarget :: vec3


section \<open>Hash, noise and fractal layering\<close>

definition hash21 :: "vec2 \<Rightarrow> real" where
  "hash21 p = (let n = sin (dot2 p (Vec2 127.1 311.7)) * 43758.5453 in frac n)"

definition hash31 :: "vec3 \<Rightarrow> real" where
  "hash31 p = (let n = sin (dot3 p (Vec3 127.1 311.7 74.7)) * 43758.5453 in frac n)"

definition hash22 :: "vec2 \<Rightarrow> vec2" where
  "hash22 p =
     (let px = frac (sin (dot2 p (Vec2 127.1 311.7)) * 43758.5453);
          py = frac (sin (dot2 p (Vec2 269.5 183.3)) * 43758.5453)
      in Vec2 px py)"

definition noise3D :: "vec3 \<Rightarrow> real" where
  "noise3D p =
     (let i = floor3 p;
          f = fract3 p;
          u = Vec3 (vx f * vx f * (3.0 - vx f * 2.0))
                   (vy f * vy f * (3.0 - vy f * 2.0))
                   (vz f * vz f * (3.0 - vz f * 2.0));
          a = hash31 i;
          b = hash31 (add3 i (Vec3 1 0 0));
          c = hash31 (add3 i (Vec3 0 1 0));
          d = hash31 (add3 i (Vec3 1 1 0));
          e = hash31 (add3 i (Vec3 0 0 1));
          f2 = hash31 (add3 i (Vec3 1 0 1));
          g = hash31 (add3 i (Vec3 0 1 1));
          h = hash31 (add3 i (Vec3 1 1 1))
      in mix (mix (mix a b (vx u)) (mix c d (vx u)) (vy u))
             (mix (mix e f2 (vx u)) (mix g h (vx u)) (vy u))
             (vz u))"

text \<open>Four octaves, unrolled in the source; \<open>value\<close>, \<open>amplitude\<close> and \<open>pos\<close> are its variables.\<close>

definition fbm :: "vec3 \<Rightarrow> real \<Rightarrow> real \<Rightarrow> real" where
  "fbm p lacunarity persistence =
     (let value0 = 0.0; amplitude0 = 0.5; pos0 = p;
          value1 = value0 + noise3D pos0 * amplitude0;
          pos1 = smul3 pos0 lacunarity;
          amplitude1 = amplitude0 * persistence;
          value2 = value1 + noise3D pos1 * amplitude1;
          pos2 = smul3 pos1 lacunarity;
          amplitude2 = amplitude1 * persistence;
          value3 = value2 + noise3D pos2 * amplitude2;
          pos3 = smul3 pos2 lacunarity;
          amplitude3 = amplitude2 * persistence;
          value4 = value3 + noise3D pos3 * amplitude3
      in value4)"


section \<open>Blackbody colour and the background field\<close>

definition blackbodyColor :: "real \<Rightarrow> vec3" where
  "blackbodyColor tempK =
     (let t = clamp ((tempK - 1000.0) / 9000.0) 0.0 1.0;
          red = clamp (1.0 - (t - 0.8) * 2.0) 0.5 1.0;
          green = smoothstep 0.0 0.5 t * (1.0 - max ((t - 0.7) * 0.3) 0.0);
          blue = smoothstep 0.3 1.0 t * t
      in Vec3 red green blue)"

text \<open>The argument of \<open>asin\<close> in the star field.\<close>

definition phiArgument :: "vec3 \<Rightarrow> real" where
  "phiArgument rd = clamp (vy rd) (- 1.0) 1.0"

definition starField :: "uniforms \<Rightarrow> vec3 \<Rightarrow> vec3" where
  "starField u rd =
     (let theta = atan2 (vz rd) (vx rd);
          phi = arcsin (phiArgument rd);
          gridScale = 60.0 / starSize u;
          scaledCoord = smul2 (Vec2 theta phi) gridScale;
          cell = floor2 scaledCoord;
          cellUV = fract2 scaledCoord;
          cellHash = hash21 cell;
          starProb = step (1.0 - starDensity u) cellHash;
          starPos = sadd2 (smul2 (hash22 (sadd2 cell 42.0)) 0.8) 0.1;
          distToStar = length2 (sub2 cellUV starPos);
          baseSizeVar = hash21 (sadd2 cell 100.0) * 0.03 + 0.01;
          finalStarSize = baseSizeVar * starSize u;
          starCore = smoothstep finalStarSize 0.0 distToStar;
          starGlow = smoothstep (finalStarSize * 3.0) 0.0 distToStar * 0.3;
          starIntensity = (starCore + starGlow) * starProb;
          colorTemp = hash21 (sadd2 cell 200.0);
          starColor = mix3 (Vec3 0.8 0.9 1.0) (Vec3 1.0 0.95 0.8) colorTemp
      in smul3 (smul3 starColor starIntensity) (starBrightness u))"

definition nebulaField :: "uniforms \<Rightarrow> vec3 \<Rightarrow> vec3" where
  "nebulaField u rd =
     (let noisePos1 = smul3 rd (nebula1Scale u);
          n1 = fbm noisePos1 2.0 0.5 * 2.0 - 1.0;
          layer1 = clamp (n1 + nebula1Density u) 0.0 1.0;
          color1 = smul3 (smul3 (nebula1Color u) layer1) (nebula1Brightness u);
          noisePos2 = smul3 rd (nebula2Scale u);
          n2 = fbm noisePos2 2.0 0.5 * 2.0 - 1.0;
          layer2 = clamp (n2 + nebula2Density u) 0.0 1.0;
          color2 = smul3 (smul3 (nebula2Color u) layer2) (nebula2Brightness u)
      in add3 color1 color2)"


section \<open>Accretion disk shading\<close>

text \<open>
  The bindings of \<open>createAccretionDiskColor\<close>, one definition for each named constant
  of the source that a later statement refers to.
\<close>

definition normR :: "uniforms \<Rightarrow> real \<Rightarrow> real" where
  "normR u hitR =
     clamp ((hitR - diskInnerRadius u) / (diskOuterRadius u - diskInnerRadius u)) 0.0 1.0"

definition tempFalloff :: "uniforms \<Rightarrow> real \<Rightarrow> real" where
  "tempFalloff u hitR = pow (diskInnerRadius u / hitR) (temperatureFalloff u)"

definition tempK :: "uniforms \<Rightarrow> real \<Rightarrow> real" where
  "tempK u hitR =
     (let peakTempK = diskTemperature u * 1000.0; outerTempK = 1500.0
      in mix outerTempK peakTempK (tempFalloff u hitR))"

definition velocityDir :: "uniforms \<Rightarrow> real \<Rightarrow> vec3" where
  "velocityDir u hitAngle =
     (let rotationSign = sgn (diskRotationSpeed u)
      in Vec3 (- sin hitAngle * rotationSign) 0.0 (cos hitAngle * rotationSign))"

definition beta :: "uniforms \<Rightarrow> real \<Rightarrow> real" where
  "beta u hitR =
     (let velocityMagnitude = 1.0 / sqrt (hitR / diskInnerRadius u)
      in velocityMagnitude * 0.3)"

definition dopplerBoost :: "uniforms \<Rightarrow> real \<Rightarrow> real \<Rightarrow> vec3 \<Rightarrow> real" where
  "dopplerBoost u hitR hitAngle rd =
     (let cosTheta = dot3 (velocityDir u hitAngle) rd;
          dopplerFactor = 1.0 / (1.0 - beta u hitR * cosTheta)
      in pow dopplerFactor (3.0 * dopplerStrength u))"

definition edgeFalloff :: "uniforms \<Rightarrow> real \<Rightarrow> real" where
  "edgeFalloff u hitR =
     smoothstep 0.0 (diskEdgeSoftnessInner u) (normR u hitR)
     * smoothstep 1.0 (1.0 - diskEdgeSoftnessOuter u) (normR u hitR)"

definition cycleLength :: "uniforms \<Rightarrow> real" where
  "cycleLength u = turbulenceCycleTime u"

definition cyclicTime :: "uniforms \<Rightarrow> real \<Rightarrow> real" where
  "cyclicTime u t = fmod t (cycleLength u)"

definition blendFactor :: "uniforms \<Rightarrow> real \<Rightarrow> real" where
  "blendFactor u t = cyclicTime u t / cycleLength u"

definition keplerianPhase1 :: "uniforms \<Rightarrow> real \<Rightarrow> real \<Rightarrow> real" where
  "keplerianPhase1 u hitR t = cyclicTime u t * diskRotationSpeed u / pow hitR 1.5"

definition keplerianPhase2 :: "uniforms \<Rightarrow> real \<Rightarrow> real \<Rightarrow> real" where
  "keplerianPhase2 u hitR t =
     (cyclicTime u t + cycleLength u) * diskRotationSpeed u / pow hitR 1.5"

definition stretchDenominator :: "uniforms \<Rightarrow> real" where
  "stretchDenominator u = max (turbulenceStretch u) 0.1"

definition noiseCoord :: "uniforms \<Rightarrow> real \<Rightarrow> real \<Rightarrow> vec3" where
  "noiseCoord u hitR rotatedAngle =
     Vec3 (hitR * turbulenceScale u)
          (cos rotatedAngle / stretchDenominator u)
          (sin rotatedAngle / stretchDenominator u)"

definition turbulence :: "uniforms \<Rightarrow> real \<Rightarrow> real \<Rightarrow> real \<Rightarrow> real" where
  "turbulence u hitR hitAngle t =
     (let rotatedAngle1 = hitAngle + keplerianPhase1 u hitR t;
          rotatedAngle2 = hitAngle + keplerianPhase2 u hitR t;
          turbulence1 = fbm (noiseCoord u hitR rotatedAngle1)
                            (turbulenceLacunarity u) (turbulencePersistence u);
          turbulence2 = fbm (noiseCoord u hitR rotatedAngle2)
                            (turbulenceLacunarity u) (turbulencePersistence u)
      in mix turbulence2 turbulence1 (blendFactor u t))"

definition ringOpacity :: "uniforms \<Rightarrow> real \<Rightarrow> real \<Rightarrow> real \<Rightarrow> real" where
  "ringOpacity u hitR hitAngle t =
     pow (clamp (turbulence u hitR hitAngle t) 0.0 1.0) (turbulenceSharpness u)"

text \<open>The shader with Doppler beaming: \<open>accretionDiskColor(hitR, hitAngle, time, rayDir)\<close>.\<close>

definition accretionDiskColor :: "uniforms \<Rightarrow> real \<Rightarrow> real \<Rightarrow> real \<Rightarrow> vec3 \<Rightarrow> vec4" where
  "accretionDiskColor u hitR hitAngle t rd =
     (let diskColor0 = blackbodyColor (tempK u hitR);
          diskColor = smul3 diskColor0 (clamp (dopplerBoost u hitR hitAngle rd) 0.1 5.0);
          finalOpacity = ringOpacity u hitR hitAngle t * edgeFalloff u hitR;
          finalColor = smul3 diskColor (diskBrightness u)
      in Vec4 finalColor finalOpacity)"

text \<open>
  The other revision of the shader file, with the adaptive step and without Doppler
  beaming: \<open>accretionDiskColor(hitR, hitAngle, time)\<close>.
\<close>

definition accretionDiskColor_plain :: "uniforms \<Rightarrow> real \<Rightarrow> real \<Rightarrow> real \<Rightarrow> vec4" where
  "accretionDiskColor_plain u hitR hitAngle t =
     (let diskColor = blackbodyColor (tempK u hitR);
          finalOpacity = ringOpacity u hitR hitAngle t * edgeFalloff u hitR;
          finalColor = smul3 diskColor (diskBrightness u)
      in Vec4 finalColor finalOpacity)"


section \<open>The raymarching loop\<close>

text \<open>The mutable variables of one shader invocation.\<close>

record ray =
  rayDir :: vec3
  rayPos :: vec3
  prevPos :: vec3
  color :: vec3
  alpha :: real
  escaped :: real
  captured :: real

text \<open>
  \<open>Loop(n, body)\<close> runs the body at most \<open>n\<close> times; \<open>Break()\<close> leaves the loop. A body
  returns the updated variables together with how it ended. \<open>Loop\<close> returns the final
  variables and the number of iterations that were started.
\<close>

datatype 's flow = Next 's | Break 's

primrec Loop :: "nat \<Rightarrow> ('s \<Rightarrow> 's flow) \<Rightarrow> 's \<Rightarrow> 's \<times> nat" where
  "Loop 0 body s = (s, 0)"
| "Loop (Suc n) body s =
     (case body s of
        Break s' \<Rightarrow> (s', 1)
      | Next s' \<Rightarrow> (let (s'', k) = Loop n body s' in (s'', Suc k)))"

definition schwarzschild :: "uniforms \<Rightarrow> real" where
  "schwarzschild u = blackHoleMass u * 2.0"

text \<open>
  Gravitational bending and the advance of the ray, for a marching step of length \<open>h\<close>.
  The revision with Doppler beaming passes \<open>uniforms.stepSize\<close>, the other revision
  its \<open>adaptiveStep\<close>.
\<close>

definition bendStrength :: "uniforms \<Rightarrow> real \<Rightarrow> real \<Rightarrow> real \<Rightarrow> real" where
  "bendStrength u rs r h = rs / (r * r) * h * gravitationalLensing u"

definition bend_and_advance :: "uniforms \<Rightarrow> real \<Rightarrow> real \<Rightarrow> ray \<Rightarrow> ray" where
  "bend_and_advance u rs h st =
     (let r = length3 (rayPos st);
          toCenter = sdiv3 (negate3 (rayPos st)) r;
          rayDir1 = add3 (rayDir st) (smul3 toCenter (bendStrength u rs r h));
          rayDir2 = normalize3 rayDir1
      in st\<lparr>rayDir := rayDir2, prevPos := rayPos st,
             rayPos := add3 (rayPos st) (smul3 rayDir2 h)\<rparr>)"

text \<open>The disk plane intersection, on the variables after the advance.\<close>

definition crossedPlane :: "ray \<Rightarrow> bool" where
  "crossedPlane st = (vy (prevPos st) * vy (rayPos st) < 0.0)"

definition crossingDenominator :: "ray \<Rightarrow> real" where
  "crossingDenominator st = vy (rayPos st) - vy (prevPos st)"

definition hitPos :: "ray \<Rightarrow> vec3" where
  "hitPos st =
     (let t = - vy (prevPos st) / crossingDenominator st
      in mix3 (prevPos st) (rayPos st) t)"

definition hitR :: "ray \<Rightarrow> real" where
  "hitR st = sqrt (vx (hitPos st) * vx (hitPos st) + vz (hitPos st) * vz (hitPos st))"

definition inDisk :: "uniforms \<Rightarrow> real \<Rightarrow> bool" where
  "inDisk u hr = (hr > diskInnerRadius u \<and> hr < diskOuterRadius u)"

definition composite :: "vec4 \<Rightarrow> ray \<Rightarrow> ray" where
  "composite diskResult st =
     (let remainingAlpha = 1.0 - alpha st
      in st\<lparr>color := add3 (color st)
                          (smul3 (smul3 (xyz diskResult) (vw diskResult)) remainingAlpha),
             alpha := alpha st + remainingAlpha * vw diskResult\<rparr>)"

definition disk_intersection ::
  "(real \<Rightarrow> real \<Rightarrow> vec3 \<Rightarrow> vec4) \<Rightarrow> uniforms \<Rightarrow> ray \<Rightarrow> ray" where
  "disk_intersection disk u st =
     (if crossedPlane st \<and> alpha st < 0.99 then
        (if inDisk u (hitR st) then
           (let hitAngle = atan2 (vz (hitPos st)) (vx (hitPos st));
                diskResult = disk (hitR st) hitAngle (rayDir st)
            in composite diskResult st)
         else st)
      else st)"

text \<open>
  One iteration. \<open>stepOf r\<close> is the step length used at radius \<open>r\<close> and \<open>disk\<close> the call
  of the disk shading; the two revisions of the shader differ in nothing else. The
  arithmetic is that of the reals, the two radius tests included; \<open>loop_body_f32\<close> below
  makes these two tests in single precision, as the shader does.
\<close>

definition loop_body ::
  "(real \<Rightarrow> real) \<Rightarrow> (real \<Rightarrow> real \<Rightarrow> vec3 \<Rightarrow> vec4) \<Rightarrow> uniforms \<Rightarrow> ray \<Rightarrow> ray flow" where
  "loop_body stepOf disk u st =
     (let rs = schwarzschild u in
      if escaped st > 0.5 \<or> captured st > 0.5 \<or> alpha st > 0.99 then Break st
      else
        (let r = length3 (rayPos st) in
         if r < rs * 1.01 then Break (st\<lparr>captured := 1.0\<rparr>)
         else if r > 100.0 then Break (st\<lparr>escaped := 1.0\<rparr>)
         else Next (disk_intersection disk u (bend_and_advance u rs (stepOf r) st))))"

text \<open>The revision with Doppler beaming marches with \<open>uniforms.stepSize\<close>.\<close>

definition body_doppler :: "uniforms \<Rightarrow> ray \<Rightarrow> ray flow" where
  "body_doppler u =
     loop_body (\<lambda>r. stepSize u)
               (\<lambda>hr hitAngle rd. accretionDiskColor u hr hitAngle (time u) rd) u"

text \<open>The other revision reduces the step near the event horizon.\<close>

definition horizonFactor :: "real \<Rightarrow> real \<Rightarrow> real" where
  "horizonFactor rs r =
     (let distFromHorizon = r - rs
      in smoothstep 0.0 (rs * 5.0) distFromHorizon * 0.8 + 0.2)"

definition adaptiveStep :: "uniforms \<Rightarrow> real \<Rightarrow> real" where
  "adaptiveStep u r = stepSize u * horizonFactor (schwarzschild u) r"

definition body_adaptive :: "uniforms \<Rightarrow> ray \<Rightarrow> ray flow" where
  "body_adaptive u =
     loop_body (adaptiveStep u)
               (\<lambda>hr hitAngle rd. accretionDiskColor_plain u hr hitAngle (time u)) u"


section \<open>The shader\<close>

text \<open>The pinhole camera: the ray through the pixel at \<open>screenUV\<close>.\<close>

definition initialRay :: "uniforms \<Rightarrow> vec2 \<Rightarrow> ray" where
  "initialRay u screenUV =
     (let uv = smul2 (sadd2 screenUV (- 0.5)) 2.0;
          aspect = v2x (resolution u) / v2y (resolution u);
          screenPos = Vec2 (v2x uv * aspect) (v2y uv);
          camPos = cameraPosition u;
          camTarget = cameraTarget u;
          camForward = normalize3 (sub3 camTarget camPos);
          worldUp = Vec3 0.0 1.0 0.0;
          camRight = normalize3 (cross3 worldUp camForward);
          camUp = cross3 camForward camRight;
          fov = 1.0;
          rd = normalize3 (add3 (add3 (smul3 camForward fov) (smul3 camRight (v2x screenPos)))
                                (smul3 camUp (v2y screenPos)))
      in \<lparr>rayDir = rd, rayPos = camPos, prevPos = camPos, color = Vec3 0.0 0.0 0.0,
          alpha = 0.0, escaped = 0.0, captured = 0.0\<rparr>)"

definition force_escaped :: "ray \<Rightarrow> ray" where
  "force_escaped st = (if captured st < 0.5 then st\<lparr>escaped := 1.0\<rparr> else st)"

text \<open>The guard of the background block, and the block itself.\<close>

definition background_evaluated :: "ray \<Rightarrow> bool" where
  "background_evaluated st = (escaped st > 0.5 \<and> alpha st < 0.99)"

definition bgColor :: "uniforms \<Rightarrow> ray \<Rightarrow> vec3" where
  "bgColor u st =
     (let bg0 = starBackgroundColor u;
          bg1 = (if starsEnabled u > 0.5 then add3 bg0 (starField u (rayDir st)) else bg0);
          bg2 = (if nebulaEnabled u > 0.5 then add3 bg1 (nebulaField u (rayDir st)) else bg1)
      in bg2)"

definition background :: "uniforms \<Rightarrow> ray \<Rightarrow> ray" where
  "background u st =
     (if background_evaluated st
      then st\<lparr>color := add3 (color st) (smul3 (bgColor u st) (1.0 - alpha st))\<rparr>
      else st)"

definition gamma :: "ray \<Rightarrow> vec4" where
  "gamma st =
     (let finalColor = pow3 (color st) (Vec3 (1.0 / 2.2) (1.0 / 2.2) (1.0 / 2.2))
      in Vec4 finalColor 1.0)"

text \<open>
  The loop of a shader, with its count of iterations, and the shader: the function
  returned by \<open>createBlackHoleShader(uniforms)\<close>, for a loop body.
\<close>

definition raymarch :: "(uniforms \<Rightarrow> ray \<Rightarrow> ray flow) \<Rightarrow> uniforms \<Rightarrow> vec2 \<Rightarrow> ray \<times> nat" where
  "raymarch body u screenUV = Loop 64 (body u) (initialRay u screenUV)"

definition shader :: "(uniforms \<Rightarrow> ray \<Rightarrow> ray flow) \<Rightarrow> uniforms \<Rightarrow> vec2 \<Rightarrow> vec4" where
  "shader body u screenUV =
     gamma (background u (force_escaped (fst (raymarch body u screenUV))))"

definition createBlackHoleShader :: "uniforms \<Rightarrow> vec2 \<Rightarrow> vec4" where
  "createBlackHoleShader = shader body_doppler"

definition createBlackHoleShader_adaptive :: "uniforms \<Rightarrow> vec2 \<Rightarrow> vec4" where
  "createBlackHoleShader_adaptive = shader body_adaptive"


section \<open>The radius tests in single precision\<close>

text \<open>
  The shader computes in 32-bit floating point, and which branch of a radius test is
  taken depends on it. \<open>rne\<close> rounds a real to the nearest integer, a tie to the even
  one; \<open>f32\<close> rounds a real to the nearest single-precision number: 24 significant
  bits, and the spacing \<open>2 powr - 149\<close> of the subnormal numbers below \<open>2 powr - 126\<close>.
  Overflow is not modelled.
\<close>

definition rne :: "real \<Rightarrow> int" where
  "rne y =
     (let n = \<lfloor>y\<rfloor>; d = y - of_int n
      in if d < 1 / 2 then n else if 1 / 2 < d then n + 1 else if even n then n else n + 1)"

definition f32 :: "real \<Rightarrow> real" where
  "f32 x =
     (if x = 0 then 0
      else (let e = max \<lfloor>log 2 \<bar>x\<bar>\<rfloor> (- 126); q = 2 powr (of_int e - 23)
            in of_int (rne (x / q)) * q))"

text \<open>
  \<open>length(rayPos)\<close> and \<open>rs.mul(1.01)\<close> with \<open>rs = blackHoleMass.mul(2.0)\<close>, every
  operation correctly rounded: the components and the literals as they are stored, the
  products, the sums and the square root.
\<close>

definition length32 :: "vec3 \<Rightarrow> real" where
  "length32 p =
     (let x = f32 (vx p); y = f32 (vy p); z = f32 (vz p)
      in f32 (sqrt (f32 (f32 (f32 (x * x) + f32 (y * y)) + f32 (z * z)))))"

definition captureThreshold32 :: "uniforms \<Rightarrow> real" where
  "captureThreshold32 u = (let rs = f32 (f32 (blackHoleMass u) * 2.0) in f32 (rs * f32 1.01))"

text \<open>The tests \<open>r.lessThan(rs.mul(1.01))\<close> and \<open>r.greaterThan(100.0)\<close>.\<close>

definition captureTest32 :: "uniforms \<Rightarrow> ray \<Rightarrow> bool" where
  "captureTest32 u st = (length32 (rayPos st) < captureThreshold32 u)"

definition escapeTest32 :: "ray \<Rightarrow> bool" where
  "escapeTest32 st = (length32 (rayPos st) > f32 100.0)"

text \<open>
  One iteration with the two radius tests in single precision, everything else as in
  \<open>loop_body\<close>, and the two revisions of the shader with it.
\<close>

definition loop_body_f32 ::
  "(real \<Rightarrow> real) \<Rightarrow> (real \<Rightarrow> real \<Rightarrow> vec3 \<Rightarrow> vec4) \<Rightarrow> uniforms \<Rightarrow> ray \<Rightarrow> ray flow" where
  "loop_body_f32 stepOf disk u st =
     (let rs = schwarzschild u in
      if escaped st > 0.5 \<or> captured st > 0.5 \<or> alpha st > 0.99 then Break st
      else if captureTest32 u st then Break (st\<lparr>captured := 1.0\<rparr>)
      else if escapeTest32 st then Break (st\<lparr>escaped := 1.0\<rparr>)
      else Next (disk_intersection disk u
                   (bend_and_advance u rs (stepOf (length3 (rayPos st))) st)))"

definition body_doppler_f32 :: "uniforms \<Rightarrow> ray \<Rightarrow> ray flow" where
  "body_doppler_f32 u =
     loop_body_f32 (\<lambda>r. stepSize u)
                   (\<lambda>hr hitAngle rd. accretionDiskColor u hr hitAngle (time u) rd) u"

definition body_adaptive_f32 :: "uniforms \<Rightarrow> ray \<Rightarrow> ray flow" where
  "body_adaptive_f32 u =
     loop_body_f32 (adaptiveStep u)
                   (\<lambda>hr hitAngle rd. accretionDiskColor_plain u hr hitAngle (time u)) u"

definition createBlackHoleShader_f32 :: "uniforms \<Rightarrow> vec2 \<Rightarrow> vec4" where
  "createBlackHoleShader_f32 = shader body_doppler_f32"

definition createBlackHoleShader_adaptive_f32 :: "uniforms \<Rightarrow> vec2 \<Rightarrow> vec4" where
  "createBlackHoleShader_adaptive_f32 = shader body_adaptive_f32"


section \<open>Evaluation that reports a singular operation\<close>











section \<open>The uniform set created by the simulation\<close>

text \<open>
  \<open>BlackHoleSimulation.initializeUniforms\<close> builds a JavaScript object: one key per
  uniform, each holding a uniform node. A configuration is an object too, so both are
  association lists in source order; a key that is absent reads as \<open>undefined\<close>.
\<close>

datatype jsval = JUndefined | JNull | JBool bool | JNum real | JStr string

type_synonym config = "(string \<times> jsval) list"

definition get :: "config \<Rightarrow> string \<Rightarrow> jsval" where
  "get cfg k = (case map_of cfg k of None \<Rightarrow> JUndefined | Some v \<Rightarrow> v)"

text \<open>The nullish coalescing operator \<open>a ?? b\<close>.\<close>

definition nullish :: "jsval \<Rightarrow> jsval \<Rightarrow> jsval" where
  "nullish a b = (if a = JUndefined \<or> a = JNull then b else a)"

text \<open>JavaScript truthiness, for \<open>c ? 1.0 : 0.0\<close>. NaN is not a real number.\<close>

definition truthy :: "jsval \<Rightarrow> bool" where
  "truthy v = (case v of JUndefined \<Rightarrow> False | JNull \<Rightarrow> False | JBool b \<Rightarrow> b
                | JNum r \<Rightarrow> r \<noteq> 0 | JStr s \<Rightarrow> s \<noteq> [])"

datatype unode =
    Uniform jsval
  | UniformColor jsval
  | UniformVector2 real real
  | UniformVector3 real real real

definition initializeUniforms :: "real \<times> real \<Rightarrow> config \<Rightarrow> (string \<times> unode) list" where
  "initializeUniforms window cfg =
   [ (''blackHoleMass'', Uniform (nullish (get cfg ''blackHoleMass'') (JNum 1.0))),
     (''diskInnerRadius'', Uniform (nullish (get cfg ''diskInnerRadius'') (JNum 3.0))),
     (''diskOuterRadius'', Uniform (nullish (get cfg ''diskOuterRadius'') (JNum 12.0))),
     (''diskTemperature'', Uniform (nullish (get cfg ''diskTemperature'') (JNum 10.0))),
     (''temperatureFalloff'', Uniform (nullish (get cfg ''temperatureFalloff'') (JNum 0.75))),
     (''diskBrightness'', Uniform (nullish (get cfg ''diskBrightness'') (JNum 2.0))),
     (''diskRotationSpeed'', Uniform (nullish (get cfg ''diskRotationSpeed'') (JNum 0.3))),
     (''turbulenceScale'', Uniform (nullish (get cfg ''turbulenceScale'') (JNum 1.0))),
     (''turbulenceStretch'', Uniform (nullish (get cfg ''turbulenceStretch'') (JNum 5.0))),
     (''turbulenceBrightness'', Uniform (nullish (get cfg ''turbulenceBrightness'') (JNum 0.3))),
     (''turbulenceSharpness'', Uniform (nullish (get cfg ''turbulenceSharpness'') (JNum 1.0))),
     (''turbulenceCycleTime'', Uniform (nullish (get cfg ''turbulenceCycleTime'') (JNum 10.0))),
     (''diskEdgeSoftnessInner'', Uniform (nullish (get cfg ''diskEdgeSoftnessInner'') (JNum 0.15))),
     (''diskEdgeSoftnessOuter'', Uniform (nullish (get cfg ''diskEdgeSoftnessOuter'') (JNum 0.15))),
     (''gravitationalLensing'', Uniform (nullish (get cfg ''gravitationalLensing'') (JNum 1.5))),
     (''diskDensity'', Uniform (nullish (get cfg ''diskDensity'') (JNum 0.25))),
     (''stepSize'', Uniform (nullish (get cfg ''stepSize'') (JNum 0.3))),
     (''starsEnabled'', Uniform (JNum (if truthy (get cfg ''starsEnabled'') then 1.0 else 0.0))),
     (''starBackgroundColor'',
        UniformColor (nullish (get cfg ''starBackgroundColor'') (JStr ''#000000''))),
     (''starDensity'', Uniform (nullish (get cfg ''starDensity'') (JNum 0.003))),
     (''starSize'', Uniform (nullish (get cfg ''starSize'') (JNum 2.0))),
     (''starBrightness'', Uniform (nullish (get cfg ''starBrightness'') (JNum 1.0))),
     (''nebulaEnabled'', Uniform (JNum (if truthy (get cfg ''nebulaEnabled'') then 1.0 else 0.0))),
     (''nebula1Scale'', Uniform (nullish (get cfg ''nebula1Scale'') (JNum 2.0))),
     (''nebula1Density'', Uniform (nullish (get cfg ''nebula1Density'') (JNum 0.5))),
     (''nebula1Brightness'', Uniform (nullish (get cfg ''nebula1Brightness'') (JNum 0.15))),
     (''nebula1Color'', UniformColor (nullish (get cfg ''nebula1Color'') (JStr ''#1a0033''))),
     (''nebula2Scale'', Uniform (nullish (get cfg ''nebula2Scale'') (JNum 6.0))),
     (''nebula2Density'', Uniform (nullish (get cfg ''nebula2Density'') (JNum 0.5))),
     (''nebula2Brightness'', Uniform (nullish (get cfg ''nebula2Brightness'') (JNum 0.15))),
     (''nebula2Color'', UniformColor (nullish (get cfg ''nebula2Color'') (JStr ''#4d1a26''))),
     (''time'', Uniform (JNum 0)),
     (''resolution'', UniformVector2 (fst window) (snd window)),
     (''cameraPosition'', UniformVector3 0 5 20),
     (''cameraTarget'', UniformVector3 0 0 0) ]"

text \<open>Reading a property of the uniforms object: \<open>None\<close> is JavaScript's \<open>undefined\<close>.\<close>

definition uniform_field :: "(string \<times> unode) list \<Rightarrow> string \<Rightarrow> unode option" where
  "uniform_field us k = map_of us k"

text \<open>
  The properties of \<open>uniforms\<close> that the shader with Doppler beaming reads, function by
  function, in the order of their first use.
\<close>

definition starField_reads :: "string list" where
  "starField_reads = [''starSize'', ''starDensity'', ''starBrightness'']"

definition nebulaField_reads :: "string list" where
  "nebulaField_reads =
   [ ''nebula1Scale'', ''nebula1Density'', ''nebula1Color'', ''nebula1Brightness'',
     ''nebula2Scale'', ''nebula2Density'', ''nebula2Color'', ''nebula2Brightness'' ]"

definition accretionDisk_reads :: "string list" where
  "accretionDisk_reads =
   [ ''diskInnerRadius'', ''diskOuterRadius'', ''diskTemperature'', ''temperatureFalloff'',
     ''diskRotationSpeed'', ''dopplerStrength'', ''diskEdgeSoftnessInner'',
     ''diskEdgeSoftnessOuter'', ''turbulenceCycleTime'', ''turbulenceScale'',
     ''turbulenceStretch'', ''turbulenceLacunarity'', ''turbulencePersistence'',
     ''turbulenceSharpness'', ''diskBrightness'' ]"

definition main_reads :: "string list" where
  "main_reads =
   [ ''blackHoleMass'', ''resolution'', ''cameraPosition'', ''cameraTarget'',
     ''diskInnerRadius'', ''diskOuterRadius'', ''stepSize'', ''gravitationalLensing'',
     ''time'', ''starBackgroundColor'', ''starsEnabled'', ''nebulaEnabled'' ]"

definition shader_reads :: "string list" where
  "shader_reads = starField_reads @ nebulaField_reads @ accretionDisk_reads @ main_reads"

definition missing_reads :: "real \<times> real \<Rightarrow> config \<Rightarrow> string list" where
  "missing_reads window cfg =
     filter (\<lambda>k. uniform_field (initializeUniforms window cfg) k = None) shader_reads"


section \<open>Example inputs\<close>

text \<open>
  The default configuration of the application's entry point. \<open>dopplerStrength\<close> has
  no default there and is set to 1; the time, the camera and a window size are added.
\<close>

definition default_uniforms :: uniforms where
  "default_uniforms =
     \<lparr> blackHoleMass = 1.0, diskInnerRadius = 3.0, diskOuterRadius = 12.0,
       diskTemperature = 5.0, temperatureFalloff = 0.75, diskBrightness = 2.0,
       diskRotationSpeed = 0.3, dopplerStrength = 1.0, turbulenceScale = 1.0,
       turbulenceStretch = 5.0, turbulenceSharpness = 1.0, turbulenceCycleTime = 10.0,
       turbulenceLacunarity = 2.0, turbulencePersistence = 0.5,
       diskEdgeSoftnessInner = 0.15, diskEdgeSoftnessOuter = 0.15,
       gravitationalLensing = 1.5, stepSize = 0.3, starsEnabled = 1.0,
       starBackgroundColor = Vec3 0 0 0, starDensity = 0.003, starSize = 2.0,
       starBrightness = 1.0, nebulaEnabled = 0.0, nebula1Scale = 2.0,
       nebula1Density = 0.5, nebula1Brightness = 0.15,
       nebula1Color = Vec3 (26 / 255) 0 (51 / 255), nebula2Scale = 6.0,
       nebula2Density = 0.5, nebula2Brightness = 0.15,
       nebula2Color = Vec3 (77 / 255) (26 / 255) (38 / 255), time = 0,
       resolution = Vec2 1920 1080, cameraPosition = Vec3 0 5 20,
       cameraTarget = Vec3 0 0 0 \<rparr>"

text \<open>A camera inside the capture radius of the default black hole.\<close>

definition inside_uniforms :: uniforms where
  "inside_uniforms = default_uniforms\<lparr>cameraPosition := Vec3 0 0 1\<rparr>"


text \<open>A marching ray at radius 5, outside the capture radius and inside the scene.\<close>

definition sample_ray :: ray where
  "sample_ray = \<lparr>rayDir = Vec3 0 0 (- 1), rayPos = Vec3 0 3 4, prevPos = Vec3 0 3 4,
      color = Vec3 0 0 0, alpha = 0, escaped = 0, captured = 0\<rparr>"

text \<open>
  Two rays that have just crossed the disk plane: one at the inner radius of the
  default disk, one in the middle of the disk.
\<close>

definition inner_edge_ray :: ray where
  "inner_edge_ray = \<lparr>rayDir = Vec3 0 (- 1) 0, rayPos = Vec3 3 (- 1) 0, prevPos = Vec3 3 1 0,
      color = Vec3 0 0 0, alpha = 0, escaped = 0, captured = 0\<rparr>"

definition disk_ray :: ray where
  "disk_ray = \<lparr>rayDir = Vec3 0 (- 1) 0, rayPos = Vec3 6 (- 1) 0, prevPos = Vec3 6 1 0,
      color = Vec3 0 0 0, alpha = 0, escaped = 0, captured = 0\<rparr>"

text \<open>Parameter sets at the edge of what the controls allow, and one beyond.\<close>

definition cool_uniforms :: uniforms where
  "cool_uniforms = default_uniforms\<lparr>diskTemperature := 1, temperatureFalloff := 1\<rparr>"






text \<open>
  The camera on the z axis at distance 4236247 / 2097152 from the default black hole:
  the single-precision number nearest to 2.02, and smaller than 2.02.
\<close>

definition boundary_uniforms :: uniforms where
  "boundary_uniforms = default_uniforms\<lparr>cameraPosition := Vec3 0 0 (4236247 / 2097152)\<rparr>"

text \<open>A disk that stands still; the control of the rotation speed ranges over [-20, 20].\<close>

definition still_uniforms :: uniforms where
  "still_uniforms = default_uniforms\<lparr>diskRotationSpeed := 0\<rparr>"


section \<open>The Doppler factor as the specification words it\<close>

text \<open>
  The boost \<open>(1 / (1 - \<beta> cos \<theta>)) ^ (3 dopplerStrength)\<close>, clamped to [0.1, 5], with
  \<open>\<beta> = 0.3 * (1 / sqrt (hitR / innerRadius))\<close> and \<open>cos \<theta>\<close> the dot product of the ray
  direction with the unit tangent at the hit angle, \<open>(- sin a, 0, cos a)\<close>, oriented by
  the sign of the rotation speed: reversed when the speed is negative. The velocity
  direction is a unit vector whatever the speed.
\<close>

definition doppler_claim :: "real \<Rightarrow> real \<Rightarrow> real \<Rightarrow> real \<Rightarrow> real \<Rightarrow> vec3 \<Rightarrow> real" where
  "doppler_claim innerRadius rotationSpeed strength hr angle rd =
     (let b = 0.3 * (1 / sqrt (hr / innerRadius));
          tangent = Vec3 (- sin angle) 0 (cos angle);
          velocity = (if rotationSpeed < 0 then negate3 tangent else tangent);
          cosTheta = dot3 velocity rd
      in clamp ((1 / (1 - b * cosTheta)) powr (3 * strength)) 0.1 5.0)"


section \<open>Auxiliary notions for the continuity of the turbulence\<close>

text \<open>
  Devices of the proofs, not functions of the source. \<open>cubic\<close> is the smooth
  interpolation weight of \<open>noise3D\<close>; \<open>interp1\<close> interpolates values given at the
  integers along one axis; \<open>lattice\<close> is the hash of a lattice point; \<open>bilerp\<close>
  interpolates four corners; \<open>crossfade\<close> is the blended turbulence as a function of the
  cyclic time.
\<close>

definition cubic :: "real \<Rightarrow> real" where
  "cubic f = f * f * (3.0 - f * 2.0)"

definition interp1 :: "(int \<Rightarrow> real) \<Rightarrow> real \<Rightarrow> real" where
  "interp1 A x = mix (A \<lfloor>x\<rfloor>) (A (\<lfloor>x\<rfloor> + 1)) (cubic (frac x))"

definition lattice :: "int \<Rightarrow> int \<Rightarrow> int \<Rightarrow> real" where
  "lattice n j k = hash31 (Vec3 (of_int n) (of_int j) (of_int k))"

definition bilerp :: "real \<Rightarrow> real \<Rightarrow> real \<Rightarrow> real \<Rightarrow> real \<Rightarrow> real \<Rightarrow> real" where
  "bilerp a b c d s t = mix (mix a b s) (mix c d s) t"

definition crossfade :: "uniforms \<Rightarrow> real \<Rightarrow> real \<Rightarrow> real \<Rightarrow> real" where
  "crossfade u hr a s =
     mix (fbm (noiseCoord u hr (a + (s + cycleLength u) * diskRotationSpeed u / pow hr 1.5))
              (turbulenceLacunarity u) (turbulencePersistence u))
         (fbm (noiseCoord u hr (a + s * diskRotationSpeed u / pow hr 1.5))
              (turbulenceLacunarity u) (turbulencePersistence u))
         (s / cycleLength u)"


section \<open>Results\<close>


subsection \<open>The bounded loop\<close>

lemma Loop_count_le: "snd (Loop n body s) \<le> n"
proof (induction n arbitrary: s)
  case 0
  show ?case by simp
next
  case (Suc n)
  show ?case
  proof (cases "body s")
    case (Next s')
    have "snd (Loop n body s') \<le> n" by (rule Suc.IH)
    with Next show ?thesis by (simp add: split_beta)
  next
    case (Break s')
    then show ?thesis by simp
  qed
qed

lemma gamma_opaque: "vw (gamma st) = 1"
  by (simp add: gamma_def)

text \<open>
  C1. For every uniform set and pixel, the raymarching loop of either revision of the
  shader starts at most 64 iterations, and the shader returns a colour, whose alpha
  is 1. The loop is a structural recursion on its bound, so it is total.
\<close>

theorem raymarch_at_most_64:
  "snd (raymarch body_doppler u screenUV) \<le> 64
   \<and> snd (raymarch body_adaptive u screenUV) \<le> 64
   \<and> vw (createBlackHoleShader u screenUV) = 1
   \<and> vw (createBlackHoleShader_adaptive u screenUV) = 1"
  by (simp add: raymarch_def Loop_count_le createBlackHoleShader_def
      createBlackHoleShader_adaptive_def shader_def gamma_opaque)

text \<open>
  The bound holds for any loop body, so also with the radius tests in single
  precision.
\<close>

lemma raymarch_f32_at_most_64:
  "snd (raymarch body_doppler_f32 u screenUV) \<le> 64
   \<and> snd (raymarch body_adaptive_f32 u screenUV) \<le> 64
   \<and> vw (createBlackHoleShader_f32 u screenUV) = 1
   \<and> vw (createBlackHoleShader_adaptive_f32 u screenUV) = 1"
  by (simp add: raymarch_def Loop_count_le createBlackHoleShader_f32_def
      createBlackHoleShader_adaptive_f32_def shader_def gamma_opaque)

subsection \<open>Immediate capture\<close>

lemma Loop_break_first:
  "body s = Break s' \<Longrightarrow> Loop (Suc n) body s = (s', 1)"
  by simp

lemma initialRay_fields:
  "rayPos (initialRay u uv) = cameraPosition u"
  "escaped (initialRay u uv) = 0" "captured (initialRay u uv) = 0"
  "alpha (initialRay u uv) = 0" "color (initialRay u uv) = Vec3 0 0 0"
  by (simp_all add: initialRay_def Let_def)

lemma raymarch_break_first:
  assumes "body u (initialRay u uv) = Break s'"
  shows "raymarch body u uv = (s', 1)"
proof -
  have "(64::nat) = Suc 63" by simp
  then show ?thesis
    unfolding raymarch_def using assms by (simp only: Loop_break_first)
qed

lemma captured_finish:
  assumes "captured st = 1" "escaped st = 0" "color st = Vec3 0 0 0"
  shows "force_escaped st = st" "\<not> background_evaluated (force_escaped st)"
    "gamma (background u (force_escaped st)) = Vec4 (Vec3 0 0 0) 1"
  using assms
  by (simp_all add: force_escaped_def background_evaluated_def background_def gamma_def
      pow3_def pow_def)

text \<open>Rounding to single precision, evaluated at the numbers that occur below.\<close>

lemma rne_unique:
  assumes "of_int n - 1 / 2 < y" "y < of_int n + 1 / 2"
  shows "rne y = n"
proof (cases "of_int n \<le> y")
  case True
  with assms have "\<lfloor>y\<rfloor> = n" by (intro floor_unique) simp_all
  with assms show ?thesis by (simp add: rne_def Let_def)
next
  case False
  with assms have f: "\<lfloor>y\<rfloor> = n - 1" by (intro floor_unique) simp_all
  have "\<not> y - of_int (n - 1) < 1 / 2" "1 / 2 < y - of_int (n - 1)"
    using assms by simp_all
  then show ?thesis by (simp add: rne_def Let_def f)
qed

lemma rne_of_int [simp]: "rne (of_int n) = n"
  by (rule rne_unique) simp_all

lemma rne_numeral [simp]: "rne (numeral w) = numeral w"
  using rne_of_int [of "numeral w"] by simp

lemma f32_eval:
  fixes k :: nat
  assumes "2 ^ k \<le> x" "x < 2 * 2 ^ k" "k \<le> 23"
  shows "f32 x = of_int (rne (x * 2 ^ (23 - k))) / 2 ^ (23 - k)"
proof -
  have "(0::real) < 2 ^ k" by simp
  with assms(1) have x: "0 < x" by linarith
  have "2 powr (of_int (int k)) \<le> x \<and> x < 2 powr (of_int (int k + 1))"
    using assms(1,2) by (simp add: powr_realpow powr_add)
  then have "\<lfloor>log 2 x\<rfloor> = int k"
    using x by (subst floor_log_eq_powr_iff) simp_all
  then have e: "max \<lfloor>log 2 x\<rfloor> (- 126) = int k"
    by simp
  have "real k - (23::real) = - real (23 - k)"
    using assms(3) by simp
  moreover have "(2::real) powr (- real (23 - k)) = 1 / 2 ^ (23 - k)"
    by (simp add: powr_minus powr_realpow inverse_eq_divide)
  ultimately have q: "(2::real) powr (real k - 23) = 1 / 2 ^ (23 - k)"
    by (simp only:)
  show ?thesis
    using x by (simp add: f32_def Let_def e q)
qed

lemma f32_0 [simp]: "f32 0 = 0"
  by (simp add: f32_def)

lemma f32_1: "f32 1 = 1"
  using f32_eval [of 0 1] by simp

lemma f32_2: "f32 2 = 2"
  using f32_eval [of 1 2] by simp

lemma f32_100: "f32 100 = 100"
  using f32_eval [of 6 100] by simp

lemma f32_101: "f32 1.01 = 4236247 / 4194304"
proof -
  have "rne (1.01 * 2 ^ 23) = 8472494"
    by (rule rne_unique) simp_all
  then show ?thesis
    using f32_eval [of 0 "1.01"] by simp
qed

lemma f32_boundary: "f32 (4236247 / 2097152) = 4236247 / 2097152"
  using f32_eval [of 1 "4236247 / 2097152"] by simp

lemma f32_boundary_square:
  "f32 (17945788645009 / 4398046511104) = 8557219 / 2097152"
proof -
  have "rne (17945788645009 / 4398046511104 * 2 ^ 21) = 8557219"
    by (rule rne_unique) simp_all
  then show ?thesis
    using f32_eval [of 2 "17945788645009 / 4398046511104"] by simp
qed

lemma f32_boundary_square_exact: "f32 (8557219 / 2097152) = 8557219 / 2097152"
  using f32_eval [of 2 "8557219 / 2097152"] by simp

lemma f32_boundary_sqrt: "f32 (sqrt (8557219 / 2097152)) = 4236247 / 2097152"
proof -
  let ?s = "sqrt (8557219 / 2097152) :: real"
  have lo: "2 \<le> ?s" by (rule real_le_rsqrt) simp
  have hi: "?s < 4" by (rule real_less_lsqrt) simp_all
  have a: "16944987 / 8388608 < ?s" by (rule real_less_rsqrt) (simp add: power2_eq_square)
  have b: "?s < 16944989 / 8388608" by (rule real_less_lsqrt) (simp_all add: power2_eq_square)
  have "rne (?s * 2 ^ 22) = 8472494"
    using a b by (intro rne_unique) simp_all
  then show ?thesis
    using f32_eval [of 1 ?s] lo hi by simp
qed

lemma length32_boundary: "length32 (Vec3 0 0 (4236247 / 2097152)) = 4236247 / 2097152"
  by (simp add: length32_def Let_def f32_boundary f32_boundary_square
      f32_boundary_square_exact f32_boundary_sqrt)

lemma f32_101': "f32 (101 / 100) = 4236247 / 4194304"
  using f32_101 by simp

lemma captureThreshold32_default:
  "blackHoleMass u = 1 \<Longrightarrow> captureThreshold32 u = 4236247 / 2097152"
  by (simp add: captureThreshold32_def Let_def f32_1 f32_2 f32_101' f32_boundary)

lemma loop_body_f32_captured:
  assumes "escaped st \<le> 0.5" "captured st \<le> 0.5" "alpha st \<le> 0.99" "captureTest32 u st"
  shows "loop_body_f32 stepOf disk u st = Break (st\<lparr>captured := 1\<rparr>)"
  using assms by (simp add: loop_body_f32_def Let_def not_less [symmetric])

lemma loop_body_f32_marching:
  assumes "escaped st \<le> 0.5" "captured st \<le> 0.5" "alpha st \<le> 0.99"
    "\<not> captureTest32 u st" "\<not> escapeTest32 st"
  shows "loop_body_f32 stepOf disk u st =
     Next (disk_intersection disk u
             (bend_and_advance u (schwarzschild u) (stepOf (length3 (rayPos st))) st))"
  using assms by (simp add: loop_body_f32_def Let_def not_less [symmetric])

lemma marching_flags:
  "captured (disk_intersection disk u (bend_and_advance u rs h st)) = captured st"
  by (simp add: disk_intersection_def composite_def bend_and_advance_def Let_def)

lemma length3_axis: "length3 (Vec3 0 0 z) = \<bar>z\<bar>"
  by (simp add: length3_def)

text \<open>
  C3, as claimed: every camera position closer to the origin than 1.01 times the event
  horizon radius \<open>2 * blackHoleMass\<close> is captured in the first iteration. The shader
  makes the comparison in single precision, where the threshold \<open>rs.mul(1.01)\<close> is a
  rounded number: for the default mass it is 4236247 / 2097152, slightly below 2.02. A
  camera on the z axis at exactly that distance is closer than 2.02, but the test
  \<open>r < rs * 1.01\<close> is false for it: the first iteration does not set the captured flag,
  it bends and advances the ray.
\<close>

theorem boundary_not_captured:
  "length3 (cameraPosition boundary_uniforms) < 1.01 * (2 * blackHoleMass boundary_uniforms)
   \<and> length32 (cameraPosition boundary_uniforms) = captureThreshold32 boundary_uniforms
   \<and> \<not> captureTest32 boundary_uniforms (initialRay boundary_uniforms (Vec2 0.5 0.5))
   \<and> body_doppler_f32 boundary_uniforms (initialRay boundary_uniforms (Vec2 0.5 0.5))
       = Next (disk_intersection
                 (\<lambda>hr hitAngle rd. accretionDiskColor boundary_uniforms hr hitAngle
                                      (time boundary_uniforms) rd)
                 boundary_uniforms
                 (bend_and_advance boundary_uniforms (schwarzschild boundary_uniforms)
                    (stepSize boundary_uniforms) (initialRay boundary_uniforms (Vec2 0.5 0.5))))
   \<and> captured (disk_intersection
                 (\<lambda>hr hitAngle rd. accretionDiskColor boundary_uniforms hr hitAngle
                                      (time boundary_uniforms) rd)
                 boundary_uniforms
                 (bend_and_advance boundary_uniforms (schwarzschild boundary_uniforms)
                    (stepSize boundary_uniforms) (initialRay boundary_uniforms (Vec2 0.5 0.5))))
       = 0"
proof -
  let ?st = "initialRay boundary_uniforms (Vec2 0.5 0.5)"
  have p: "rayPos ?st = Vec3 0 0 (4236247 / 2097152)"
    "cameraPosition boundary_uniforms = Vec3 0 0 (4236247 / 2097152)"
    "blackHoleMass boundary_uniforms = 1"
    by (simp_all add: initialRay_fields boundary_uniforms_def default_uniforms_def)
  have r: "length3 (cameraPosition boundary_uniforms)
             < 1.01 * (2 * blackHoleMass boundary_uniforms)"
    by (simp only: p length3_axis) simp
  have l: "length32 (rayPos ?st) = 4236247 / 2097152"
    "captureThreshold32 boundary_uniforms = 4236247 / 2097152"
    by (simp_all only: p length32_boundary captureThreshold32_default [OF p(3)])
  have c: "\<not> captureTest32 boundary_uniforms ?st"
    unfolding captureTest32_def l by simp
  have e: "\<not> escapeTest32 ?st"
    unfolding escapeTest32_def l by (simp add: f32_100)
  have n: "body_doppler_f32 boundary_uniforms ?st
       = Next (disk_intersection
                 (\<lambda>hr hitAngle rd. accretionDiskColor boundary_uniforms hr hitAngle
                                      (time boundary_uniforms) rd)
                 boundary_uniforms
                 (bend_and_advance boundary_uniforms (schwarzschild boundary_uniforms)
                    (stepSize boundary_uniforms) ?st))"
    unfolding body_doppler_f32_def
    by (rule loop_body_f32_marching [OF _ _ _ c e]) (simp_all add: initialRay_fields)
  have k: "length32 (cameraPosition boundary_uniforms) = captureThreshold32 boundary_uniforms"
    by (simp only: p l length32_boundary)
  show ?thesis
    using r k c n by (simp only: marching_flags initialRay_fields) simp
qed

text \<open>
  C3, amended. If the distance of the camera from the origin is below the threshold
  \<open>rs.mul(1.01)\<close>, both as the shader computes them in single precision, the loop stops
  in its first iteration with the captured flag set; after the loop the escaped flag is
  still unset, the guard of the background block is false, and the pixel is black with
  alpha 1. The revision with the adaptive step returns the same pixel.
\<close>

theorem immediate_capture_single_precision:
  assumes "length32 (cameraPosition u) < captureThreshold32 u"
  shows "snd (raymarch body_doppler_f32 u screenUV) = 1
    \<and> captured (fst (raymarch body_doppler_f32 u screenUV)) = 1
    \<and> escaped (force_escaped (fst (raymarch body_doppler_f32 u screenUV))) = 0
    \<and> \<not> background_evaluated (force_escaped (fst (raymarch body_doppler_f32 u screenUV)))
    \<and> createBlackHoleShader_f32 u screenUV = Vec4 (Vec3 0 0 0) 1
    \<and> createBlackHoleShader_adaptive_f32 u screenUV = Vec4 (Vec3 0 0 0) 1"
proof -
  let ?st = "(initialRay u screenUV)\<lparr>captured := 1\<rparr>"
  have c: "captureTest32 u (initialRay u screenUV)"
    using assms by (simp add: captureTest32_def initialRay_fields)
  have "body_doppler_f32 u (initialRay u screenUV) = Break ?st"
    unfolding body_doppler_f32_def
    using c by (intro loop_body_f32_captured) (simp_all add: initialRay_fields)
  then have m: "raymarch body_doppler_f32 u screenUV = (?st, 1)"
    by (rule raymarch_break_first)
  have "body_adaptive_f32 u (initialRay u screenUV) = Break ?st"
    unfolding body_adaptive_f32_def
    using c by (intro loop_body_f32_captured) (simp_all add: initialRay_fields)
  then have m': "raymarch body_adaptive_f32 u screenUV = (?st, 1)"
    by (rule raymarch_break_first)
  have f: "captured ?st = 1" "escaped ?st = 0" "color ?st = Vec3 0 0 0"
    by (simp_all add: initialRay_fields)
  show ?thesis
    using captured_finish [OF f]
    by (simp add: m m' createBlackHoleShader_f32_def createBlackHoleShader_adaptive_f32_def
        shader_def f)
qed

lemma length32_inside: "length32 (Vec3 0 0 1) = 1"
  by (simp add: length32_def Let_def f32_1)

theorem immediate_capture_single_precision_witness:
  "length32 (cameraPosition inside_uniforms) < captureThreshold32 inside_uniforms
   \<and> snd (raymarch body_doppler_f32 inside_uniforms (Vec2 0.5 0.5)) = 1
   \<and> createBlackHoleShader_f32 inside_uniforms (Vec2 0.5 0.5) = Vec4 (Vec3 0 0 0) 1"
proof -
  have "blackHoleMass inside_uniforms = 1" "cameraPosition inside_uniforms = Vec3 0 0 1"
    by (simp_all add: inside_uniforms_def default_uniforms_def)
  then have h: "length32 (cameraPosition inside_uniforms) < captureThreshold32 inside_uniforms"
    by (simp add: length32_inside captureThreshold32_default)
  show ?thesis
    using h immediate_capture_single_precision [OF h, of "Vec2 0.5 0.5"] by simp
qed


subsection \<open>The step length\<close>

lemma smoothstep_low: "x \<le> e0 \<Longrightarrow> e0 < e1 \<Longrightarrow> smoothstep e0 e1 x = 0"
  by (simp add: smoothstep_def clamp_def Let_def max_def min_def divide_le_0_iff)

lemma smoothstep_high:
  assumes "e1 \<le> x" "e0 < e1"
  shows "smoothstep e0 e1 x = 1"
proof -
  have "1 \<le> (x - e0) / (e1 - e0)"
    using assms by (simp add: le_divide_eq)
  then have "clamp ((x - e0) / (e1 - e0)) 0 1 = 1"
    by (simp add: clamp_def)
  then show ?thesis
    by (simp add: smoothstep_def)
qed

lemma cubic_mono:
  fixes a b :: real
  assumes "0 \<le> a" "a \<le> b" "b \<le> 1"
  shows "a * a * (3 - 2 * a) \<le> b * b * (3 - 2 * b)"
proof -
  have "b * b * (3 - 2 * b) - a * a * (3 - 2 * a)
      = (b - a) * (a * (3 - 2 * a - b) + b * (3 - 2 * b - a))"
    by (simp add: algebra_simps)
  moreover have "0 \<le> (b - a) * (a * (3 - 2 * a - b) + b * (3 - 2 * b - a))"
    using assms by (intro mult_nonneg_nonneg add_nonneg_nonneg) simp_all
  ultimately show ?thesis by simp
qed

lemma clamp_mono: "x \<le> y \<Longrightarrow> clamp x lo hi \<le> clamp y lo hi"
  by (simp add: clamp_def min_def max_def)

lemma clamp_unit: "0 \<le> clamp x 0 1" "clamp x 0 1 \<le> 1"
  by (simp_all add: clamp_def min_def max_def)

lemma smoothstep_mono:
  assumes "e0 < e1" "x \<le> y"
  shows "smoothstep e0 e1 x \<le> smoothstep e0 e1 y"
proof -
  have "(x - e0) / (e1 - e0) \<le> (y - e0) / (e1 - e0)"
    using assms by (simp add: divide_right_mono)
  then have "clamp ((x - e0) / (e1 - e0)) 0 1 \<le> clamp ((y - e0) / (e1 - e0)) 0 1"
    by (rule clamp_mono)
  then show ?thesis
    unfolding smoothstep_def Let_def by (intro cubic_mono clamp_unit)
qed

lemma horizonFactor_at_horizon: "0 < rs \<Longrightarrow> horizonFactor rs rs = 0.2"
  by (simp add: horizonFactor_def Let_def smoothstep_low)

lemma horizonFactor_far: "0 < rs \<Longrightarrow> 6 * rs \<le> r \<Longrightarrow> horizonFactor rs r = 1"
  by (simp add: horizonFactor_def Let_def smoothstep_high)

lemma horizonFactor_mono: "0 < rs \<Longrightarrow> r1 \<le> r2 \<Longrightarrow> horizonFactor rs r1 \<le> horizonFactor rs r2"
  by (simp add: horizonFactor_def Let_def smoothstep_mono)

lemma disk_intersection_motion:
  "rayDir (disk_intersection disk u st) = rayDir st"
  "rayPos (disk_intersection disk u st) = rayPos st"
  "prevPos (disk_intersection disk u st) = prevPos st"
  by (simp_all add: disk_intersection_def composite_def Let_def)

lemma bend_and_advance_motion:
  "rayDir (bend_and_advance u rs h st) =
     normalize3 (add3 (rayDir st)
       (smul3 (sdiv3 (negate3 (rayPos st)) (length3 (rayPos st)))
              (rs / (length3 (rayPos st) * length3 (rayPos st)) * h * gravitationalLensing u)))"
  "rayPos (bend_and_advance u rs h st) =
     add3 (rayPos st) (smul3 (rayDir (bend_and_advance u rs h st)) h)"
  "prevPos (bend_and_advance u rs h st) = rayPos st"
  by (simp_all add: bend_and_advance_def bendStrength_def Let_def)

lemma loop_body_marching:
  assumes "escaped st \<le> 0.5" "captured st \<le> 0.5" "alpha st \<le> 0.99"
    and "schwarzschild u * 1.01 \<le> length3 (rayPos st)" "length3 (rayPos st) \<le> 100"
  shows "loop_body stepOf disk u st =
     Next (disk_intersection disk u
            (bend_and_advance u (schwarzschild u) (stepOf (length3 (rayPos st))) st))"
  using assms by (simp add: loop_body_def Let_def not_less [symmetric])

text \<open>
  C5, as claimed: the factor is 1.0 from 5 times the event horizon radius on. It is
  not: the smooth threshold runs over the distance from the horizon, \<open>r - rs\<close>, so at
  \<open>r = 5 rs\<close> (here \<open>rs = 2\<close>) the factor is 0.9168.
\<close>

theorem horizonFactor_at_5rs: "horizonFactor 2 (5 * 2) = 573 / 625 \<and> horizonFactor 2 (5 * 2) \<noteq> 1"
  by (simp add: horizonFactor_def Let_def smoothstep_def clamp_def)

text \<open>
  C5, amended. In the revision with the adaptive step, for a positive mass, the step is
  \<open>stepSize\<close> times a factor that is 0.2 at \<open>r = rs\<close>, does not decrease with \<open>r\<close>, and
  is 1.0 for every \<open>r\<close> from \<open>6 rs\<close> on; an iteration that marches uses this step both
  in the bending strength and in the advance of the position. The revision with
  Doppler beaming uses \<open>stepSize\<close> itself in both places.
\<close>

theorem adaptive_step:
  assumes "0 < blackHoleMass u"
    and "escaped st \<le> 0.5" "captured st \<le> 0.5" "alpha st \<le> 0.99"
    and "schwarzschild u * 1.01 \<le> length3 (rayPos st)" "length3 (rayPos st) \<le> 100"
  shows "(let rs = schwarzschild u; r = length3 (rayPos st) in
     adaptiveStep u r = stepSize u * horizonFactor rs r
     \<and> horizonFactor rs rs = 0.2
     \<and> (\<forall>r1 r2. r1 \<le> r2 \<longrightarrow> horizonFactor rs r1 \<le> horizonFactor rs r2)
     \<and> (\<forall>r'. 6 * rs \<le> r' \<longrightarrow> horizonFactor rs r' = 1)
     \<and> (\<exists>st'. body_adaptive u st = Next st'
           \<and> rayDir st' = normalize3 (add3 (rayDir st)
                 (smul3 (sdiv3 (negate3 (rayPos st)) r)
                        (rs / (r * r) * adaptiveStep u r * gravitationalLensing u)))
           \<and> rayPos st' = add3 (rayPos st) (smul3 (rayDir st') (adaptiveStep u r)))
     \<and> (\<exists>st'. body_doppler u st = Next st'
           \<and> rayDir st' = normalize3 (add3 (rayDir st)
                 (smul3 (sdiv3 (negate3 (rayPos st)) r)
                        (rs / (r * r) * stepSize u * gravitationalLensing u)))
           \<and> rayPos st' = add3 (rayPos st) (smul3 (rayDir st') (stepSize u))))"
proof -
  have rs: "0 < schwarzschild u"
    using assms(1) by (simp add: schwarzschild_def)
  have a: "\<exists>st'. body_adaptive u st = Next st'
           \<and> rayDir st' = normalize3 (add3 (rayDir st)
                 (smul3 (sdiv3 (negate3 (rayPos st)) (length3 (rayPos st)))
                        (schwarzschild u / (length3 (rayPos st) * length3 (rayPos st))
                          * adaptiveStep u (length3 (rayPos st)) * gravitationalLensing u)))
           \<and> rayPos st' = add3 (rayPos st) (smul3 (rayDir st') (adaptiveStep u (length3 (rayPos st))))"
    unfolding body_adaptive_def loop_body_marching [OF assms(2-6)]
    by (simp add: disk_intersection_motion bend_and_advance_motion)
  have d: "\<exists>st'. body_doppler u st = Next st'
           \<and> rayDir st' = normalize3 (add3 (rayDir st)
                 (smul3 (sdiv3 (negate3 (rayPos st)) (length3 (rayPos st)))
                        (schwarzschild u / (length3 (rayPos st) * length3 (rayPos st))
                          * stepSize u * gravitationalLensing u)))
           \<and> rayPos st' = add3 (rayPos st) (smul3 (rayDir st') (stepSize u))"
    unfolding body_doppler_def loop_body_marching [OF assms(2-6)]
    by (simp add: disk_intersection_motion bend_and_advance_motion)
  show ?thesis
    unfolding Let_def
    using rs a d
    by (simp add: adaptiveStep_def horizonFactor_at_horizon horizonFactor_far horizonFactor_mono)
qed

lemma length3_sample: "length3 (Vec3 0 3 4) = 5"
proof -
  have "sqrt 25 = (5::real)" by (rule real_sqrt_unique) simp_all
  then show ?thesis by (simp add: length3_def)
qed

theorem adaptive_step_witness:
  "0 < blackHoleMass default_uniforms
   \<and> schwarzschild default_uniforms * 1.01 \<le> length3 (rayPos sample_ray)
   \<and> length3 (rayPos sample_ray) \<le> 100
   \<and> horizonFactor 2 2 = 0.2 \<and> horizonFactor 2 3 \<le> horizonFactor 2 4
   \<and> horizonFactor 2 12 = 1
   \<and> (\<exists>st'. body_adaptive default_uniforms sample_ray = Next st'
         \<and> rayPos st' = add3 (Vec3 0 3 4) (smul3 (rayDir st') (adaptiveStep default_uniforms 5)))"
proof -
  have s: "schwarzschild default_uniforms = 2"
    by (simp add: schwarzschild_def default_uniforms_def)
  have l: "length3 (rayPos sample_ray) = 5"
    by (simp add: sample_ray_def length3_sample)
  have h: "0 < blackHoleMass default_uniforms"
    "escaped sample_ray \<le> 0.5" "captured sample_ray \<le> 0.5" "alpha sample_ray \<le> 0.99"
    "schwarzschild default_uniforms * 1.01 \<le> length3 (rayPos sample_ray)"
    "length3 (rayPos sample_ray) \<le> 100"
    unfolding s l by (simp_all add: default_uniforms_def sample_ray_def)
  have t: "horizonFactor 2 2 = 0.2
     \<and> (\<forall>r1 r2. r1 \<le> r2 \<longrightarrow> horizonFactor 2 r1 \<le> horizonFactor 2 r2)
     \<and> (\<forall>r'. 6 * 2 \<le> r' \<longrightarrow> horizonFactor 2 r' = 1)
     \<and> (\<exists>st'. body_adaptive default_uniforms sample_ray = Next st'
         \<and> rayPos st' = add3 (rayPos sample_ray)
              (smul3 (rayDir st') (adaptiveStep default_uniforms 5)))"
    using adaptive_step [OF h] unfolding Let_def s l by blast
  then have "horizonFactor 2 3 \<le> horizonFactor 2 4" "horizonFactor 2 12 = 1"
    by simp_all
  with t h show ?thesis
    by (simp add: sample_ray_def)
qed
text \<open>
  With the radius tests in single precision, an iteration that passes them marches
  with the same step: the adaptive step in one revision, \<open>stepSize\<close> in the other.
\<close>

lemma marching_step_f32:
  assumes "escaped st \<le> 0.5" "captured st \<le> 0.5" "alpha st \<le> 0.99"
    and "\<not> captureTest32 u st" "\<not> escapeTest32 st"
  shows "body_adaptive_f32 u st =
       Next (disk_intersection (\<lambda>hr hitAngle rd. accretionDiskColor_plain u hr hitAngle (time u)) u
              (bend_and_advance u (schwarzschild u) (adaptiveStep u (length3 (rayPos st))) st))"
    and "body_doppler_f32 u st =
       Next (disk_intersection (\<lambda>hr hitAngle rd. accretionDiskColor u hr hitAngle (time u) rd) u
              (bend_and_advance u (schwarzschild u) (stepSize u) st))"
  using assms
  by (simp_all add: body_adaptive_f32_def body_doppler_f32_def loop_body_f32_def Let_def
      not_less [symmetric])


subsection \<open>Disk hits\<close>

lemma hitR_inner_edge_ray: "hitR inner_edge_ray = 3"
proof -
  have "sqrt 9 = (3::real)" by (rule real_sqrt_unique) simp_all
  then show ?thesis
    by (simp add: hitR_def hitPos_def inner_edge_ray_def crossingDenominator_def mix3_def mix_def)
qed

lemma hitR_disk_ray: "hitR disk_ray = 6"
proof -
  have "sqrt 36 = (6::real)" by (rule real_sqrt_unique) simp_all
  then show ?thesis
    by (simp add: hitR_def hitPos_def disk_ray_def crossingDenominator_def mix3_def mix_def)
qed

text \<open>
  C6, as claimed: a hit whose radius equals the inner radius is accepted. It is not:
  the ray below crosses the plane at radius 3, the inner radius of the default disk,
  and the test \<open>inDisk\<close> fails.
\<close>

theorem inner_edge_rejected:
  "crossedPlane inner_edge_ray \<and> alpha inner_edge_ray < 0.99
   \<and> hitR inner_edge_ray = diskInnerRadius default_uniforms
   \<and> hitR inner_edge_ray < diskOuterRadius default_uniforms
   \<and> \<not> inDisk default_uniforms (hitR inner_edge_ray)"
  by (simp add: hitR_inner_edge_ray)
     (simp add: crossedPlane_def inner_edge_ray_def default_uniforms_def inDisk_def)

text \<open>
  C6, amended. At a detected crossing with opacity below 0.99, the disk shading is
  composited if and only if the hit radius lies in the open interval between the inner
  and the outer radius; otherwise the variables are unchanged.
\<close>

theorem disk_hit_open_interval:
  assumes "crossedPlane st" "alpha st < 0.99"
  shows "disk_intersection disk u st =
     (if diskInnerRadius u < hitR st \<and> hitR st < diskOuterRadius u
      then composite (disk (hitR st) (atan2 (vz (hitPos st)) (vx (hitPos st))) (rayDir st)) st
      else st)"
  using assms by (simp add: disk_intersection_def inDisk_def Let_def)

theorem disk_hit_open_interval_witness:
  "crossedPlane disk_ray \<and> alpha disk_ray < 0.99
   \<and> disk_intersection (\<lambda>hr a rd. Vec4 (Vec3 1 1 1) 1) default_uniforms disk_ray
       = disk_ray\<lparr>color := Vec3 1 1 1, alpha := 1\<rparr>
   \<and> crossedPlane inner_edge_ray \<and> alpha inner_edge_ray < 0.99
   \<and> disk_intersection (\<lambda>hr a rd. Vec4 (Vec3 1 1 1) 1) default_uniforms inner_edge_ray
       = inner_edge_ray"
proof -
  have h: "crossedPlane disk_ray" "alpha disk_ray < 0.99"
    by (simp_all add: crossedPlane_def disk_ray_def)
  have h': "crossedPlane inner_edge_ray" "alpha inner_edge_ray < 0.99"
    by (simp_all add: crossedPlane_def inner_edge_ray_def)
  have c: "composite (Vec4 (Vec3 1 1 1) 1) disk_ray = disk_ray\<lparr>color := Vec3 1 1 1, alpha := 1\<rparr>"
    by (simp add: composite_def disk_ray_def add3_def smul3_def)
  show ?thesis
    using h h'
      disk_hit_open_interval [OF h, of "\<lambda>hr a rd. Vec4 (Vec3 1 1 1) 1" default_uniforms]
      disk_hit_open_interval [OF h', of "\<lambda>hr a rd. Vec4 (Vec3 1 1 1) 1" default_uniforms]
    by (simp add: hitR_disk_ray hitR_inner_edge_ray c default_uniforms_def)
qed

subsection \<open>Doppler beaming\<close>

lemma blackbody_red: "1 / 2 \<le> vx (blackbodyColor T)"
  by (simp add: blackbodyColor_def Let_def clamp_def)

lemma velocityDir_sgn:
  "velocityDir u a = smul3 (Vec3 (- sin a) 0 (cos a)) (sgn (diskRotationSpeed u))"
  by (simp add: velocityDir_def Let_def smul3_def)

lemma doppler_multiplier_still:
  assumes "diskRotationSpeed u = 0"
  shows "clamp (dopplerBoost u hr a rd) (1 / 10) 5 = 1" "velocityDir u a = Vec3 0 0 0"
  using assms
  by (simp_all add: dopplerBoost_def velocityDir_def Let_def dot3_def pow_def clamp_def)

lemma doppler_multiplier_moving:
  assumes "diskRotationSpeed u \<noteq> 0"
  shows "clamp (dopplerBoost u hr a rd) (1 / 10) 5
       = doppler_claim (diskInnerRadius u) (diskRotationSpeed u) (dopplerStrength u) hr a rd"
proof -
  have "velocityDir u a
      = (if diskRotationSpeed u < 0 then negate3 (Vec3 (- sin a) 0 (cos a))
         else Vec3 (- sin a) 0 (cos a))"
    using assms by (simp add: velocityDir_def Let_def negate3_def sgn_real_def)
  then show ?thesis
    by (simp add: dopplerBoost_def beta_def doppler_claim_def pow_def Let_def mult.commute)
qed

lemma velocityDir_oriented:
  assumes "diskRotationSpeed u \<noteq> 0"
  shows "velocityDir u a
      = (if diskRotationSpeed u < 0 then negate3 (Vec3 (- sin a) 0 (cos a))
         else Vec3 (- sin a) 0 (cos a))"
  using assms by (simp add: velocityDir_def Let_def negate3_def sgn_real_def)

lemma velocityDir_unit:
  assumes "diskRotationSpeed u \<noteq> 0"
  shows "length3 (velocityDir u a) = 1"
proof -
  have "sgn (diskRotationSpeed u) * sgn (diskRotationSpeed u) = 1"
    using assms by (simp add: sgn_real_def)
  then have "(sin a * sgn (diskRotationSpeed u)) * (sin a * sgn (diskRotationSpeed u))
      + (cos a * sgn (diskRotationSpeed u)) * (cos a * sgn (diskRotationSpeed u))
      = (sin a)\<^sup>2 + (cos a)\<^sup>2"
    by (simp add: power2_eq_square algebra_simps)
  then show ?thesis
    by (simp add: velocityDir_sgn length3_def smul3_def)
qed

text \<open>
  C7, as claimed: for every rotation speed the blackbody colour is multiplied by the
  boost computed from the unit tangent. It is not when the disk stands still:
  \<open>sign(0)\<close> is 0, so the velocity direction of the shader is the zero vector,
  \<open>cos \<theta>\<close> is 0 and the colour is multiplied by 1, whereas the unit tangent gives the
  factor 125 / 64 at the hit below, and 125 / 216 in the opposite orientation.
\<close>

theorem doppler_still_disk:
  "diskRotationSpeed still_uniforms = 0
   \<and> velocityDir still_uniforms 0 = Vec3 0 0 0
   \<and> length3 (velocityDir still_uniforms 0) \<noteq> 1
   \<and> clamp (dopplerBoost still_uniforms (27 / 4) 0 (Vec3 0 0 1)) 0.1 5.0 = 1
   \<and> doppler_claim (diskInnerRadius still_uniforms) (diskRotationSpeed still_uniforms)
         (dopplerStrength still_uniforms) (27 / 4) 0 (Vec3 0 0 1) = 125 / 64
   \<and> doppler_claim (diskInnerRadius still_uniforms) (- 1)
         (dopplerStrength still_uniforms) (27 / 4) 0 (Vec3 0 0 1) = 125 / 216
   \<and> xyz (accretionDiskColor still_uniforms (27 / 4) 0 0 (Vec3 0 0 1))
       \<noteq> smul3 (smul3 (blackbodyColor (tempK still_uniforms (27 / 4)))
                 (doppler_claim (diskInnerRadius still_uniforms)
                    (diskRotationSpeed still_uniforms) (dopplerStrength still_uniforms)
                    (27 / 4) 0 (Vec3 0 0 1)))
               (diskBrightness still_uniforms)"
proof -
  have z: "diskRotationSpeed still_uniforms = 0"
    by (simp add: still_uniforms_def)
  have s: "sqrt (9 / 4) = (3 / 2 :: real)"
    by (rule real_sqrt_unique) (simp_all add: power2_eq_square)
  have c: "doppler_claim (diskInnerRadius still_uniforms) (diskRotationSpeed still_uniforms)
         (dopplerStrength still_uniforms) (27 / 4) 0 (Vec3 0 0 1) = 125 / 64"
    by (simp add: doppler_claim_def still_uniforms_def default_uniforms_def Let_def dot3_def
        s clamp_def power3_eq_cube)
  have c': "doppler_claim (diskInnerRadius still_uniforms) (- 1)
         (dopplerStrength still_uniforms) (27 / 4) 0 (Vec3 0 0 1) = 125 / 216"
    by (simp add: doppler_claim_def still_uniforms_def default_uniforms_def Let_def dot3_def
        negate3_def s clamp_def power3_eq_cube)
  have m: "clamp (dopplerBoost still_uniforms (27 / 4) 0 (Vec3 0 0 1)) (1 / 10) 5 = 1"
    by (rule doppler_multiplier_still [OF z])
  have v: "velocityDir still_uniforms 0 = Vec3 0 0 0"
    by (rule doppler_multiplier_still [OF z])
  have b: "diskBrightness still_uniforms = 2"
    by (simp add: still_uniforms_def default_uniforms_def)
  have "vx (xyz (accretionDiskColor still_uniforms (27 / 4) 0 0 (Vec3 0 0 1)))
      = vx (blackbodyColor (tempK still_uniforms (27 / 4))) * 2"
    by (simp add: accretionDiskColor_def Let_def doppler_multiplier_still(1) [OF z] b smul3_def)
  moreover have "vx (smul3 (smul3 (blackbodyColor (tempK still_uniforms (27 / 4)))
                 (doppler_claim (diskInnerRadius still_uniforms)
                    (diskRotationSpeed still_uniforms) (dopplerStrength still_uniforms)
                    (27 / 4) 0 (Vec3 0 0 1)))
               (diskBrightness still_uniforms))
      = vx (blackbodyColor (tempK still_uniforms (27 / 4))) * (125 / 64) * 2"
    by (simp add: c b smul3_def)
  moreover have "0 < vx (blackbodyColor (tempK still_uniforms (27 / 4)))"
    using blackbody_red [of "tempK still_uniforms (27 / 4)"] by linarith
  ultimately have "vx (xyz (accretionDiskColor still_uniforms (27 / 4) 0 0 (Vec3 0 0 1)))
      \<noteq> vx (smul3 (smul3 (blackbodyColor (tempK still_uniforms (27 / 4)))
                 (doppler_claim (diskInnerRadius still_uniforms)
                    (diskRotationSpeed still_uniforms) (dopplerStrength still_uniforms)
                    (27 / 4) 0 (Vec3 0 0 1)))
               (diskBrightness still_uniforms))"
    by simp
  then have "xyz (accretionDiskColor still_uniforms (27 / 4) 0 0 (Vec3 0 0 1))
       \<noteq> smul3 (smul3 (blackbodyColor (tempK still_uniforms (27 / 4)))
                 (doppler_claim (diskInnerRadius still_uniforms)
                    (diskRotationSpeed still_uniforms) (dopplerStrength still_uniforms)
                    (27 / 4) 0 (Vec3 0 0 1)))
               (diskBrightness still_uniforms)"
    by metis
  then show ?thesis
    using z v m c c' by (simp add: length3_def)
qed

text \<open>
  C7, amended. For a rotation speed that is not zero, the colour returned by the disk
  shading is the blackbody colour multiplied by the clamped boost of the specification
  (and by the disk brightness), and the velocity direction is the unit tangent
  \<open>(- sin a, 0, cos a)\<close>, reversed for a negative speed. For a rotation speed of zero
  the velocity direction is the zero vector and the blackbody colour is multiplied
  by 1. In both cases the velocity direction is perpendicular to the radial direction
  \<open>(cos a, 0, sin a)\<close> at the hit angle.
\<close>

theorem doppler_beaming_moving:
  "(diskRotationSpeed u \<noteq> 0 \<longrightarrow>
      xyz (accretionDiskColor u hr a t rd)
        = smul3 (smul3 (blackbodyColor (tempK u hr))
                   (doppler_claim (diskInnerRadius u) (diskRotationSpeed u) (dopplerStrength u)
                      hr a rd))
                (diskBrightness u)
      \<and> velocityDir u a
          = (if diskRotationSpeed u < 0 then negate3 (Vec3 (- sin a) 0 (cos a))
             else Vec3 (- sin a) 0 (cos a))
      \<and> length3 (velocityDir u a) = 1)
   \<and> (diskRotationSpeed u = 0 \<longrightarrow>
        xyz (accretionDiskColor u hr a t rd)
          = smul3 (smul3 (blackbodyColor (tempK u hr)) 1) (diskBrightness u)
        \<and> velocityDir u a = Vec3 0 0 0)
   \<and> dot3 (velocityDir u a) (Vec3 (cos a) 0 (sin a)) = 0"
proof -
  have x: "xyz (accretionDiskColor u hr a t rd)
     = smul3 (smul3 (blackbodyColor (tempK u hr)) (clamp (dopplerBoost u hr a rd) (1 / 10) 5))
             (diskBrightness u)"
    by (simp add: accretionDiskColor_def Let_def)
  have p: "dot3 (velocityDir u a) (Vec3 (cos a) 0 (sin a)) = 0"
    by (simp add: velocityDir_sgn dot3_def smul3_def)
  have m1: "xyz (accretionDiskColor u hr a t rd)
        = smul3 (smul3 (blackbodyColor (tempK u hr))
                   (doppler_claim (diskInnerRadius u) (diskRotationSpeed u) (dopplerStrength u)
                      hr a rd))
                (diskBrightness u)"
    if "diskRotationSpeed u \<noteq> 0"
    by (simp only: x doppler_multiplier_moving [OF that])
  have s: "xyz (accretionDiskColor u hr a t rd)
          = smul3 (smul3 (blackbodyColor (tempK u hr)) 1) (diskBrightness u)
        \<and> velocityDir u a = Vec3 0 0 0"
    if "diskRotationSpeed u = 0"
    by (simp only: x doppler_multiplier_still [OF that])
  show ?thesis
    using m1 s p velocityDir_oriented [of u a] velocityDir_unit [of u a] by blast
qed

theorem doppler_beaming_moving_witness:
  "diskRotationSpeed default_uniforms \<noteq> 0
   \<and> velocityDir default_uniforms 0 = Vec3 0 0 1
   \<and> length3 (velocityDir default_uniforms 0) = 1
   \<and> xyz (accretionDiskColor default_uniforms (27 / 4) 0 0 (Vec3 0 0 1))
       = smul3 (smul3 (blackbodyColor (tempK default_uniforms (27 / 4))) (125 / 64)) 2
   \<and> diskRotationSpeed still_uniforms = 0
   \<and> xyz (accretionDiskColor still_uniforms (27 / 4) 0 0 (Vec3 0 0 1))
       = smul3 (smul3 (blackbodyColor (tempK still_uniforms (27 / 4))) 1) 2"
proof -
  have h: "diskRotationSpeed default_uniforms \<noteq> 0" "diskRotationSpeed still_uniforms = 0"
    "\<not> diskRotationSpeed default_uniforms < 0"
    by (simp_all add: default_uniforms_def still_uniforms_def)
  have b: "diskBrightness default_uniforms = 2" "diskBrightness still_uniforms = 2"
    by (simp_all add: default_uniforms_def still_uniforms_def)
  have s: "sqrt (9 / 4) = (3 / 2 :: real)"
    by (rule real_sqrt_unique) (simp_all add: power2_eq_square)
  have c: "doppler_claim (diskInnerRadius default_uniforms) (diskRotationSpeed default_uniforms)
         (dopplerStrength default_uniforms) (27 / 4) 0 (Vec3 0 0 1) = 125 / 64"
    by (simp add: doppler_claim_def default_uniforms_def Let_def dot3_def s clamp_def
        power3_eq_cube)
  show ?thesis
    using h doppler_beaming_moving [of default_uniforms "27 / 4" 0 0 "Vec3 0 0 1"]
      doppler_beaming_moving [of still_uniforms "27 / 4" 0 0 "Vec3 0 0 1"]
    by (simp add: c b length3_def)
qed

subsection \<open>Temperature\<close>

lemma tempK_eq: "tempK u r = 1500 + (diskTemperature u * 1000 - 1500) * (diskInnerRadius u / r) powr temperatureFalloff u"
  by (simp add: tempK_def tempFalloff_def mix_def pow_def Let_def algebra_simps)

text \<open>
  C9. The temperature is claimed not to increase with the hit radius, and the comments
  of the shader promise a hot inner edge and cooler outer regions, with 1500 K the
  minimum temperature, reached at the outer edge. With \<open>diskTemperature = 1\<close>, the
  lowest value its control offers, and exponent 1 the interpolation runs the other
  way: 1000 K at the inner radius 3, below that minimum, and 1250 K at radius 6.
\<close>

theorem tempK_increasing_counterexample:
  "diskTemperature cool_uniforms = 1 \<and> 0 < temperatureFalloff cool_uniforms
   \<and> diskInnerRadius cool_uniforms = 3 \<and> (3::real) \<le> 6 \<and> 6 \<le> diskOuterRadius cool_uniforms
   \<and> tempK cool_uniforms 3 = 1000 \<and> tempK cool_uniforms 6 = 1250
   \<and> tempK cool_uniforms (diskInnerRadius cool_uniforms) < 1500
   \<and> \<not> tempK cool_uniforms 6 \<le> tempK cool_uniforms 3"
  by (simp add: tempK_eq cool_uniforms_def default_uniforms_def)

text \<open>
  The inversion is confined to peak temperatures below 1500 K: from a peak of 1500 K
  on, the temperature does not increase with the radius.
\<close>

lemma tempK_monotone:
  assumes "0 < temperatureFalloff u" "0 < diskInnerRadius u"
    and "1500 \<le> diskTemperature u * 1000"
    and "diskInnerRadius u \<le> r1" "r1 \<le> r2"
  shows "tempK u r2 \<le> tempK u r1"
proof -
  have "diskInnerRadius u / r2 \<le> diskInnerRadius u / r1"
    using assms by (intro divide_left_mono) (auto intro: mult_pos_pos)
  moreover have "0 \<le> diskInnerRadius u / r2" using assms by simp
  ultimately have "(diskInnerRadius u / r2) powr temperatureFalloff u
      \<le> (diskInnerRadius u / r1) powr temperatureFalloff u"
    using assms(1) by (intro powr_mono2) simp_all
  then show ?thesis
    using assms(3) by (simp add: tempK_eq mult_left_mono)
qed

subsection \<open>Denominators and domains\<close>
































subsection \<open>Continuity of the value noise\<close>

lemma cubic_0 [simp]: "cubic 0 = 0" and cubic_1 [simp]: "cubic 1 = 1"
  by (simp_all add: cubic_def)

lemma cubic_range:
  assumes "0 \<le> a" "a \<le> 1"
  shows "0 \<le> cubic a" "cubic a \<le> 1"
proof -
  show "0 \<le> cubic a"
    unfolding cubic_def using assms by (intro mult_nonneg_nonneg) simp_all
  have "1 - cubic a = (1 - a) * (1 - a) * (1 + 2 * a)"
    by (simp add: cubic_def algebra_simps)
  moreover have "0 \<le> (1 - a) * (1 - a) * (1 + 2 * a)"
    using assms by (intro mult_nonneg_nonneg) simp_all
  ultimately show "cubic a \<le> 1" by simp
qed

lemma cubic_lipschitz:
  assumes "0 \<le> a" "a \<le> 1" "0 \<le> b" "b \<le> 1"
  shows "\<bar>cubic b - cubic a\<bar> \<le> 3 / 2 * \<bar>b - a\<bar>"
proof -
  define g where "g = a * (3 - 2 * a - b) + b * (3 - 2 * b - a)"
  have eq: "cubic b - cubic a = (b - a) * g"
    by (simp add: cubic_def g_def algebra_simps)
  have g0: "0 \<le> g"
    unfolding g_def using assms by (intro add_nonneg_nonneg mult_nonneg_nonneg) simp_all
  define q where "q = (a - 1 / 2)\<^sup>2 + (b - 1 / 2)\<^sup>2 + (a + b - 1)\<^sup>2"
  have "3 / 2 - g = q"
    by (simp add: g_def q_def power2_eq_square algebra_simps)
  moreover have "0 \<le> q"
    unfolding q_def by (intro add_nonneg_nonneg) simp_all
  ultimately have "g \<le> 3 / 2"
    by linarith
  with g0 have "\<bar>g\<bar> \<le> 3 / 2" by simp
  then have "\<bar>b - a\<bar> * \<bar>g\<bar> \<le> \<bar>b - a\<bar> * (3 / 2)"
    by (intro mult_left_mono) simp_all
  then show ?thesis
    by (simp add: eq abs_mult mult.commute)
qed

lemma mix_range:
  assumes "0 \<le> a" "a \<le> 1" "0 \<le> b" "b \<le> 1" "0 \<le> t" "t \<le> 1"
  shows "0 \<le> mix a b t" "mix a b t \<le> 1"
proof -
  show "0 \<le> mix a b t"
    unfolding mix_def using assms by (intro add_nonneg_nonneg mult_nonneg_nonneg) simp_all
  have "a * (1 - t) \<le> 1 * (1 - t)" "b * t \<le> 1 * t"
    using assms by (intro mult_right_mono; simp)+
  then show "mix a b t \<le> 1"
    by (simp add: mix_def)
qed

lemma interp1_cell:
  assumes "of_int n \<le> x" "x \<le> of_int n + 1"
  shows "interp1 A x = mix (A n) (A (n + 1)) (cubic (x - of_int n))"
proof (cases "x = of_int n + 1")
  case True
  then have "x = of_int (n + 1)" by simp
  then have "\<lfloor>x\<rfloor> = n + 1" "frac x = 0" by simp_all
  then show ?thesis
    using True by (simp add: interp1_def mix_def)
next
  case False
  with assms have "\<lfloor>x\<rfloor> = n" by (intro floor_unique) simp_all
  then show ?thesis
    by (simp add: interp1_def frac_def)
qed

lemma interp1_range:
  assumes "\<forall>m. 0 \<le> A m \<and> A m \<le> 1"
  shows "0 \<le> interp1 A x" "interp1 A x \<le> 1"
  unfolding interp1_def
  using assms cubic_range [of "frac x"] frac_lt_1 [of x]
  by (auto intro!: mix_range simp: less_imp_le)

lemma interp1_cell_lipschitz:
  assumes A: "\<forall>m. 0 \<le> A m \<and> A m \<le> 1"
    and x: "of_int n \<le> x" "x \<le> of_int n + 1"
    and y: "of_int n \<le> y" "y \<le> of_int n + 1"
  shows "\<bar>interp1 A x - interp1 A y\<bar> \<le> 3 / 2 * \<bar>x - y\<bar>"
proof -
  have eq: "interp1 A x - interp1 A y
      = (A (n + 1) - A n) * (cubic (x - of_int n) - cubic (y - of_int n))"
    by (simp add: interp1_cell [OF x] interp1_cell [OF y] mix_def algebra_simps)
  have d: "\<bar>A (n + 1) - A n\<bar> \<le> 1"
    using A [rule_format, of n] A [rule_format, of "n + 1"] by linarith
  have c: "\<bar>cubic (x - of_int n) - cubic (y - of_int n)\<bar> \<le> 3 / 2 * \<bar>x - y\<bar>"
    using cubic_lipschitz [of "y - of_int n" "x - of_int n"] x y by simp
  have "\<bar>A (n + 1) - A n\<bar> * \<bar>cubic (x - of_int n) - cubic (y - of_int n)\<bar>
      \<le> 1 * (3 / 2 * \<bar>x - y\<bar>)"
    using d c by (intro mult_mono) simp_all
  then show ?thesis
    by (simp add: eq abs_mult)
qed

lemma interp1_lipschitz_le:
  assumes A: "\<forall>m. 0 \<le> A m \<and> A m \<le> 1" and "x \<le> y"
  shows "\<bar>interp1 A x - interp1 A y\<bar> \<le> 3 / 2 * \<bar>x - y\<bar>"
proof (cases "y - x < 1")
  case False
  have "\<bar>interp1 A x - interp1 A y\<bar> \<le> 1"
    using interp1_range [OF A, where x = x] interp1_range [OF A, where x = y] by linarith
  moreover have "1 \<le> \<bar>x - y\<bar>"
    using False by simp
  ultimately show ?thesis by simp
next
  case True
  define n where "n = \<lfloor>x\<rfloor>"
  have x: "of_int n \<le> x" "x < of_int n + 1"
    unfolding n_def by linarith+
  show ?thesis
  proof (cases "y \<le> of_int n + 1")
    case True
    with x \<open>x \<le> y\<close> show ?thesis
      by (intro interp1_cell_lipschitz [OF A, of n]) simp_all
  next
    case False
    define m where "m = (of_int (n + 1) :: real)"
    have m: "x \<le> m" "m \<le> y" "y \<le> of_int (n + 1) + 1" "of_int n \<le> m" "m \<le> of_int n + 1"
      "of_int (n + 1) \<le> m"
      using False True x by (simp_all add: m_def)
    have "\<bar>interp1 A x - interp1 A m\<bar> \<le> 3 / 2 * \<bar>x - m\<bar>"
      using x m by (intro interp1_cell_lipschitz [OF A, of n]) simp_all
    moreover have "\<bar>interp1 A m - interp1 A y\<bar> \<le> 3 / 2 * \<bar>m - y\<bar>"
      using m by (intro interp1_cell_lipschitz [OF A, of "n + 1"]) simp_all
    moreover have "\<bar>x - m\<bar> = m - x" "\<bar>m - y\<bar> = y - m" "\<bar>x - y\<bar> = y - x"
      using m(1,2) by simp_all
    moreover have "\<bar>interp1 A x - interp1 A y\<bar>
        \<le> \<bar>interp1 A x - interp1 A m\<bar> + \<bar>interp1 A m - interp1 A y\<bar>"
      by simp
    ultimately show ?thesis
      by simp
  qed
qed

lemma interp1_lipschitz:
  assumes A: "\<forall>m. 0 \<le> A m \<and> A m \<le> 1"
  shows "\<bar>interp1 A x - interp1 A y\<bar> \<le> 3 / 2 * \<bar>x - y\<bar>"
proof (cases "x \<le> y")
  case True
  then show ?thesis by (rule interp1_lipschitz_le [OF A])
next
  case False
  then have "\<bar>interp1 A y - interp1 A x\<bar> \<le> 3 / 2 * \<bar>y - x\<bar>"
    by (intro interp1_lipschitz_le [OF A]) simp
  then show ?thesis by (simp add: abs_minus_commute)
qed

lemma lattice_range: "0 \<le> lattice n j k \<and> lattice n j k \<le> 1"
  using frac_lt_1 [of "sin (dot3 (Vec3 (of_int n) (of_int j) (of_int k)) (Vec3 127.1 311.7 74.7)) * 43758.5453"]
  by (simp add: lattice_def hash31_def Let_def less_imp_le)

lemma noise3D_lattice:
  "noise3D (Vec3 x y z) =
     mix (mix (mix (lattice \<lfloor>x\<rfloor> \<lfloor>y\<rfloor> \<lfloor>z\<rfloor>) (lattice (\<lfloor>x\<rfloor> + 1) \<lfloor>y\<rfloor> \<lfloor>z\<rfloor>) (cubic (frac x)))
              (mix (lattice \<lfloor>x\<rfloor> (\<lfloor>y\<rfloor> + 1) \<lfloor>z\<rfloor>) (lattice (\<lfloor>x\<rfloor> + 1) (\<lfloor>y\<rfloor> + 1) \<lfloor>z\<rfloor>) (cubic (frac x)))
              (cubic (frac y)))
         (mix (mix (lattice \<lfloor>x\<rfloor> \<lfloor>y\<rfloor> (\<lfloor>z\<rfloor> + 1)) (lattice (\<lfloor>x\<rfloor> + 1) \<lfloor>y\<rfloor> (\<lfloor>z\<rfloor> + 1)) (cubic (frac x)))
              (mix (lattice \<lfloor>x\<rfloor> (\<lfloor>y\<rfloor> + 1) (\<lfloor>z\<rfloor> + 1)) (lattice (\<lfloor>x\<rfloor> + 1) (\<lfloor>y\<rfloor> + 1) (\<lfloor>z\<rfloor> + 1)) (cubic (frac x)))
              (cubic (frac y)))
         (cubic (frac z))"
  by (simp add: noise3D_def Let_def floor3_def fract3_def add3_def lattice_def cubic_def)

lemma bilerp_range:
  assumes "0 \<le> a \<and> a \<le> 1" "0 \<le> b \<and> b \<le> 1" "0 \<le> c \<and> c \<le> 1" "0 \<le> d \<and> d \<le> 1"
    "0 \<le> s \<and> s \<le> 1" "0 \<le> t \<and> t \<le> 1"
  shows "0 \<le> bilerp a b c d s t \<and> bilerp a b c d s t \<le> 1"
  unfolding bilerp_def using assms by (intro conjI mix_range) simp_all

lemma cubic_frac_range: "0 \<le> cubic (frac x) \<and> cubic (frac x) \<le> 1"
  using cubic_range [of "frac x"] frac_lt_1 [of x] by (simp add: less_imp_le)

lemma noise3D_interp_x:
  "noise3D (Vec3 x y z) =
     interp1 (\<lambda>n. bilerp (lattice n \<lfloor>y\<rfloor> \<lfloor>z\<rfloor>) (lattice n (\<lfloor>y\<rfloor> + 1) \<lfloor>z\<rfloor>)
                          (lattice n \<lfloor>y\<rfloor> (\<lfloor>z\<rfloor> + 1)) (lattice n (\<lfloor>y\<rfloor> + 1) (\<lfloor>z\<rfloor> + 1))
                          (cubic (frac y)) (cubic (frac z))) x"
  by (simp add: noise3D_lattice interp1_def bilerp_def mix_def algebra_simps)

lemma noise3D_interp_y:
  "noise3D (Vec3 x y z) =
     interp1 (\<lambda>n. bilerp (lattice \<lfloor>x\<rfloor> n \<lfloor>z\<rfloor>) (lattice (\<lfloor>x\<rfloor> + 1) n \<lfloor>z\<rfloor>)
                          (lattice \<lfloor>x\<rfloor> n (\<lfloor>z\<rfloor> + 1)) (lattice (\<lfloor>x\<rfloor> + 1) n (\<lfloor>z\<rfloor> + 1))
                          (cubic (frac x)) (cubic (frac z))) y"
  by (simp add: noise3D_lattice interp1_def bilerp_def mix_def algebra_simps)

lemma noise3D_interp_z:
  "noise3D (Vec3 x y z) =
     interp1 (\<lambda>n. bilerp (lattice \<lfloor>x\<rfloor> \<lfloor>y\<rfloor> n) (lattice (\<lfloor>x\<rfloor> + 1) \<lfloor>y\<rfloor> n)
                          (lattice \<lfloor>x\<rfloor> (\<lfloor>y\<rfloor> + 1) n) (lattice (\<lfloor>x\<rfloor> + 1) (\<lfloor>y\<rfloor> + 1) n)
                          (cubic (frac x)) (cubic (frac y))) z"
  by (simp add: noise3D_lattice interp1_def bilerp_def)

lemma noise3D_lipschitz_x:
  "\<bar>noise3D (Vec3 x y z) - noise3D (Vec3 x' y z)\<bar> \<le> 3 / 2 * \<bar>x - x'\<bar>"
  unfolding noise3D_interp_x
  by (intro interp1_lipschitz allI bilerp_range lattice_range cubic_frac_range)

lemma noise3D_lipschitz_y:
  "\<bar>noise3D (Vec3 x y z) - noise3D (Vec3 x y' z)\<bar> \<le> 3 / 2 * \<bar>y - y'\<bar>"
  unfolding noise3D_interp_y
  by (intro interp1_lipschitz allI bilerp_range lattice_range cubic_frac_range)

lemma noise3D_lipschitz_z:
  "\<bar>noise3D (Vec3 x y z) - noise3D (Vec3 x y z')\<bar> \<le> 3 / 2 * \<bar>z - z'\<bar>"
  unfolding noise3D_interp_z
  by (intro interp1_lipschitz allI bilerp_range lattice_range cubic_frac_range)

lemma noise3D_lipschitz:
  "\<bar>noise3D (Vec3 x y z) - noise3D (Vec3 x' y' z')\<bar>
     \<le> 3 / 2 * (\<bar>x - x'\<bar> + \<bar>y - y'\<bar> + \<bar>z - z'\<bar>)"
proof -
  have "\<bar>noise3D (Vec3 x y z) - noise3D (Vec3 x' y' z')\<bar>
      \<le> \<bar>noise3D (Vec3 x y z) - noise3D (Vec3 x' y z)\<bar>
        + \<bar>noise3D (Vec3 x' y z) - noise3D (Vec3 x' y' z)\<bar>
        + \<bar>noise3D (Vec3 x' y' z) - noise3D (Vec3 x' y' z')\<bar>"
    by simp
  also have "\<dots> \<le> 3 / 2 * \<bar>x - x'\<bar> + 3 / 2 * \<bar>y - y'\<bar> + 3 / 2 * \<bar>z - z'\<bar>"
    by (intro add_mono noise3D_lipschitz_x noise3D_lipschitz_y noise3D_lipschitz_z)
  finally show ?thesis by (simp add: algebra_simps)
qed

lemma noise3D_tendsto:
  assumes "(X \<longlongrightarrow> x) F" "(Y \<longlongrightarrow> y) F" "(Z \<longlongrightarrow> z) F"
  shows "((\<lambda>t. noise3D (Vec3 (X t) (Y t) (Z t))) \<longlongrightarrow> noise3D (Vec3 x y z)) F"
proof -
  have "((\<lambda>t. 3 / 2 * (\<bar>X t - x\<bar> + \<bar>Y t - y\<bar> + \<bar>Z t - z\<bar>))
          \<longlongrightarrow> 3 / 2 * (\<bar>x - x\<bar> + \<bar>y - y\<bar> + \<bar>z - z\<bar>)) F"
    by (intro tendsto_intros assms)
  then have b: "((\<lambda>t. 3 / 2 * (\<bar>X t - x\<bar> + \<bar>Y t - y\<bar> + \<bar>Z t - z\<bar>)) \<longlongrightarrow> 0) F"
    by simp
  have "((\<lambda>t. dist (noise3D (Vec3 (X t) (Y t) (Z t))) (noise3D (Vec3 x y z))) \<longlongrightarrow> 0) F"
  proof (rule tendsto_sandwich [OF _ _ tendsto_const b])
    show "\<forall>\<^sub>F t in F. 0 \<le> dist (noise3D (Vec3 (X t) (Y t) (Z t))) (noise3D (Vec3 x y z))"
      by simp
    show "\<forall>\<^sub>F t in F. dist (noise3D (Vec3 (X t) (Y t) (Z t))) (noise3D (Vec3 x y z))
            \<le> 3 / 2 * (\<bar>X t - x\<bar> + \<bar>Y t - y\<bar> + \<bar>Z t - z\<bar>)"
      unfolding dist_real_def by (intro always_eventually allI noise3D_lipschitz)
  qed
  then show ?thesis
    by (simp only: tendsto_dist_iff [symmetric])
qed

lemma fbm_tendsto:
  assumes "(X \<longlongrightarrow> x) F" "(Y \<longlongrightarrow> y) F" "(Z \<longlongrightarrow> z) F"
  shows "((\<lambda>t. fbm (Vec3 (X t) (Y t) (Z t)) lac pers) \<longlongrightarrow> fbm (Vec3 x y z) lac pers) F"
  unfolding fbm_def Let_def smul3_def vec3.sel
  by (intro tendsto_intros noise3D_tendsto assms)

subsection \<open>Cyclic continuity of the turbulence\<close>

lemma turbulence_crossfade: "turbulence u hr a t = crossfade u hr a (cyclicTime u t)"
  by (simp add: turbulence_def crossfade_def keplerianPhase1_def keplerianPhase2_def
      blendFactor_def Let_def)

lemma noiseCoord_fbm_tendsto:
  fixes F :: "real filter"
  assumes "(p \<longlongrightarrow> p0) F"
  shows "((\<lambda>t. fbm (noiseCoord u hr (p t)) lac pers) \<longlongrightarrow> fbm (noiseCoord u hr p0) lac pers) F"
  unfolding noiseCoord_def
  by (intro fbm_tendsto tendsto_const tendsto_divide tendsto_cos tendsto_sin assms)
     (simp_all add: stretchDenominator_def)

lemma crossfade_tendsto:
  fixes F :: "real filter"
  assumes "(s \<longlongrightarrow> s0) F"
  shows "((\<lambda>t. crossfade u hr a (s t)) \<longlongrightarrow> crossfade u hr a s0) F"
  unfolding crossfade_def mix_def divide_inverse [of _ "pow hr 1.5"]
    divide_inverse [of _ "cycleLength u"]
  by (intro tendsto_add tendsto_mult tendsto_diff tendsto_const noiseCoord_fbm_tendsto assms)

lemma crossfade_ends:
  assumes "cycleLength u \<noteq> 0"
  shows "crossfade u hr a (cycleLength u) = crossfade u hr a 0"
  using assms by (simp add: crossfade_def mix_def)

lemma fmod_left:
  assumes "0 < c" "of_int (k - 1) * c < t" "t < of_int k * c"
  shows "fmod t c = t - c * of_int (k - 1)"
proof -
  have "of_int (k - 1) \<le> t / c" "t / c < of_int (k - 1) + 1"
    using assms by (simp_all add: pos_le_divide_eq pos_divide_less_eq less_imp_le)
  then have "\<lfloor>t / c\<rfloor> = k - 1"
    by (rule floor_unique)
  then show ?thesis
    by (simp add: fmod_def)
qed

lemma fmod_right:
  assumes "0 < c" "of_int k * c \<le> t" "t < of_int (k + 1) * c"
  shows "fmod t c = t - c * of_int k"
proof -
  have "of_int k \<le> t / c" "t / c < of_int k + 1"
    using assms by (simp_all add: pos_le_divide_eq pos_divide_less_eq)
  then have "\<lfloor>t / c\<rfloor> = k"
    by (rule floor_unique)
  then show ?thesis
    by (simp add: fmod_def)
qed

text \<open>
  C8. For a positive cycle time, every hit radius and hit angle and every integer \<open>k\<close>,
  the blended turbulence, as a function of the time, tends to its value at
  \<open>k * cycleTime\<close> as the time approaches \<open>k * cycleTime\<close> from below, and also as
  it approaches from above: the two one-sided limits are equal and equal the value.
\<close>

theorem turbulence_cyclic_continuity:
  assumes "0 < turbulenceCycleTime u"
  shows "((\<lambda>t. turbulence u hr a t) \<longlongrightarrow> turbulence u hr a (of_int k * turbulenceCycleTime u))
           (at_left (of_int k * turbulenceCycleTime u))
    \<and> ((\<lambda>t. turbulence u hr a t) \<longlongrightarrow> turbulence u hr a (of_int k * turbulenceCycleTime u))
           (at_right (of_int k * turbulenceCycleTime u))"
proof -
  define c where "c = turbulenceCycleTime u"
  define T where "T = of_int k * c"
  have c: "0 < c" "cycleLength u = c"
    using assms by (simp_all add: c_def cycleLength_def)
  have at_T: "turbulence u hr a T = crossfade u hr a 0"
    using fmod_right [of c k T] c by (simp add: turbulence_crossfade cyclicTime_def T_def algebra_simps)
  have left: "((\<lambda>t. turbulence u hr a t) \<longlongrightarrow> turbulence u hr a T) (at_left T)"
  proof -
    have "((\<lambda>t. t - c * of_int (k - 1)) \<longlongrightarrow> T - c * of_int (k - 1)) (at_left T)"
      by (intro tendsto_intros)
    then have "((\<lambda>t. crossfade u hr a (t - c * of_int (k - 1)))
                 \<longlongrightarrow> crossfade u hr a (T - c * of_int (k - 1))) (at_left T)"
      by (rule crossfade_tendsto)
    moreover have z: "T - c * of_int (k - 1) = cycleLength u"
      by (simp add: T_def c algebra_simps)
    moreover have e: "crossfade u hr a (cycleLength u) = turbulence u hr a T"
      using c crossfade_ends [of u hr a] by (simp only: at_T)
    ultimately have "((\<lambda>t. crossfade u hr a (t - c * of_int (k - 1)))
                 \<longlongrightarrow> turbulence u hr a T) (at_left T)"
      by (simp only: z e)
    moreover have "\<forall>\<^sub>F t in at_left T. turbulence u hr a t = crossfade u hr a (t - c * of_int (k - 1))"
    proof -
      have "T - c < T" using c by simp
      then have "\<forall>\<^sub>F t in at_left T. t \<in> {T - c<..<T}"
        by (rule eventually_at_left_real)
      then show ?thesis
      proof eventually_elim
        case (elim t)
        then have "of_int (k - 1) * c < t" "t < of_int k * c"
          by (simp_all add: T_def algebra_simps)
        then have "fmod t c = t - c * of_int (k - 1)"
          by (rule fmod_left [OF c(1)])
        then show ?case
          by (simp add: turbulence_crossfade cyclicTime_def c)
      qed
    qed
    ultimately show ?thesis
      by (simp add: tendsto_cong)
  qed
  have right: "((\<lambda>t. turbulence u hr a t) \<longlongrightarrow> turbulence u hr a T) (at_right T)"
  proof -
    have "((\<lambda>t. t - c * of_int k) \<longlongrightarrow> T - c * of_int k) (at_right T)"
      by (intro tendsto_intros)
    then have "((\<lambda>t. crossfade u hr a (t - c * of_int k))
                 \<longlongrightarrow> crossfade u hr a (T - c * of_int k)) (at_right T)"
      by (rule crossfade_tendsto)
    moreover have z: "T - c * of_int k = 0"
      by (simp add: T_def)
    ultimately have "((\<lambda>t. crossfade u hr a (t - c * of_int k))
                 \<longlongrightarrow> turbulence u hr a T) (at_right T)"
      by (simp only: z at_T)
    moreover have "\<forall>\<^sub>F t in at_right T. turbulence u hr a t = crossfade u hr a (t - c * of_int k)"
    proof -
      have "T < T + c" using c by simp
      then have "\<forall>\<^sub>F t in at_right T. t \<in> {T<..<T + c}"
        by (rule eventually_at_right_real)
      then show ?thesis
      proof eventually_elim
        case (elim t)
        then have "of_int k * c \<le> t" "t < of_int (k + 1) * c"
          by (simp_all add: T_def algebra_simps)
        then have "fmod t c = t - c * of_int k"
          by (rule fmod_right [OF c(1)])
        then show ?case
          by (simp add: turbulence_crossfade cyclicTime_def c)
      qed
    qed
    ultimately show ?thesis
      by (simp add: tendsto_cong)
  qed
  show ?thesis
    using left right by (simp add: T_def c_def)
qed

theorem turbulence_cyclic_continuity_witness:
  "0 < turbulenceCycleTime default_uniforms
   \<and> ((\<lambda>t. turbulence default_uniforms 6 0 t) \<longlongrightarrow> turbulence default_uniforms 6 0 20)
        (at_left 20)"
proof -
  have h: "0 < turbulenceCycleTime default_uniforms"
    by (simp add: default_uniforms_def)
  have "of_int 2 * turbulenceCycleTime default_uniforms = 20"
    by (simp add: default_uniforms_def)
  then show ?thesis
    using h turbulence_cyclic_continuity [OF h, of 6 0 2] by simp
qed

subsection \<open>The uniform set\<close>

lemma initializeUniforms_keys:
  "map fst (initializeUniforms window cfg) =
   [ ''blackHoleMass'', ''diskInnerRadius'', ''diskOuterRadius'', ''diskTemperature'',
     ''temperatureFalloff'', ''diskBrightness'', ''diskRotationSpeed'', ''turbulenceScale'',
     ''turbulenceStretch'', ''turbulenceBrightness'', ''turbulenceSharpness'',
     ''turbulenceCycleTime'', ''diskEdgeSoftnessInner'', ''diskEdgeSoftnessOuter'',
     ''gravitationalLensing'', ''diskDensity'', ''stepSize'', ''starsEnabled'',
     ''starBackgroundColor'', ''starDensity'', ''starSize'', ''starBrightness'',
     ''nebulaEnabled'', ''nebula1Scale'', ''nebula1Density'', ''nebula1Brightness'',
     ''nebula1Color'', ''nebula2Scale'', ''nebula2Density'', ''nebula2Brightness'',
     ''nebula2Color'', ''time'', ''resolution'', ''cameraPosition'', ''cameraTarget'' ]"
  by (simp add: initializeUniforms_def)

lemma uniform_field_None:
  "uniform_field (initializeUniforms window cfg) k = None
     \<longleftrightarrow> k \<notin> set (map fst (initializeUniforms window cfg))"
  by (simp add: uniform_field_def map_of_eq_None_iff)

text \<open>
  C10. The claim says that every uniform read by the shader, and in particular
  \<open>dopplerStrength\<close>, \<open>turbulenceLacunarity\<close> and \<open>turbulencePersistence\<close>, is a key
  created by \<open>initializeUniforms\<close>. The code creates none of these three: for every
  configuration and window size, reading each of them from the created object gives
  \<open>undefined\<close>, and they are exactly the properties that the shader reads without
  their being created.
\<close>

theorem initializeUniforms_lacks_disk_uniforms:
  "uniform_field (initializeUniforms window cfg) ''dopplerStrength'' = None
   \<and> uniform_field (initializeUniforms window cfg) ''turbulenceLacunarity'' = None
   \<and> uniform_field (initializeUniforms window cfg) ''turbulencePersistence'' = None
   \<and> missing_reads window cfg
       = [''dopplerStrength'', ''turbulenceLacunarity'', ''turbulencePersistence'']"
  unfolding missing_reads_def uniform_field_None initializeUniforms_keys shader_reads_def
    starField_reads_def nebulaField_reads_def accretionDisk_reads_def main_reads_def
  by code_simp

end
